theory Spec2Isabelle
  imports Main "HOL-Library.Sublist"
begin

section \<open>The monitoring lab notebook (lab.ipynb) as a sequence of cells\<close>

text \<open>
  The notebook is a linear Python script, one code cell after the other. Every cell is
  embedded as a function from the kernel state to an outcome: the state the cell leaves
  behind, and the exception when one was raised. The libraries and services the notebook
  calls (scikit-learn, pandas, numpy, boto3, the SageMaker SDK and the services behind
  them) are not code of the notebook: they are the fields of an environment record, of
  which the theorems assume at most the documented contracts. float64 values are an
  abstract type \<open>'f\<close>, the state of the external services an abstract type \<open>'w\<close>.
  The first code cell only runs pip and is left out. The kernel state holds the variables that
  a later statement reads; the variables of the loop body (\<open>payload\<close>, \<open>response\<close>, \<open>result\<close>) and
  the client handles (\<open>sagemaker_session\<close>, \<open>runtime\<close>, \<open>s3\<close>, \<open>monitor\<close>) are used where they are
  assigned and are not stored. \<open>str\<close> of a float64 and of a Python float are one rendering,
  \<open>str_float\<close>.

  The two-dimensional float arrays that \<open>make_classification\<close> returns live in a store, and
  the variables \<open>X_normal\<close> and \<open>X_drifted\<close> hold their addresses: \<^verbatim>\<open>pd.DataFrame(X, columns=...)\<close>
  does not copy a two-dimensional array, so the float columns of the frame are views of the
  buffer of \<open>X\<close>, and a write through the frame is a write to \<open>X\<close> and to every other frame
  built on \<open>X\<close>.
\<close>

subsection \<open>Exceptions and outcomes\<close>

datatype py_error = ClientError string | ValueError string | KeyError string | NameError string

datatype 's outcome = Done 's | Raised py_error 's

primrec final :: "'s outcome \<Rightarrow> 's" where
  "final (Done s) = s"
| "final (Raised e s) = s"

primrec is_Done :: "'s outcome \<Rightarrow> bool" where
  "is_Done (Done s) = True"
| "is_Done (Raised e s) = False"


subsection \<open>Strings\<close>

definition digit_char :: "nat \<Rightarrow> char" where
  "digit_char n = ''0123456789'' ! n"

function str_nat :: "nat \<Rightarrow> string" where
  "str_nat n = (if n < 10 then [digit_char n] else str_nat (n div 10) @ [digit_char (n mod 10)])"
  by pat_completeness auto
termination
  by (relation "measure id") auto

declare str_nat.simps [simp del]

text \<open>\<^verbatim>\<open>sep.join(xs)\<close>\<close>

fun join :: "string \<Rightarrow> string list \<Rightarrow> string" where
  "join sep [] = []"
| "join sep [x] = x"
| "join sep (x # y # ys) = x @ sep @ join sep (y # ys)"

text \<open>\<^verbatim>\<open>f"{bucket}"\<close> of a value that is a string or None.\<close>

fun format_opt :: "string option \<Rightarrow> string" where
  "format_opt None = ''None''"
| "format_opt (Some s) = s"

subsection \<open>Arrays and data frames\<close>

text \<open>
  The store of the two-dimensional float64 arrays: an address is a position in the list, a
  new array is appended, and an array is written in place. The arrays of labels
  (\<open>y_normal\<close>, \<open>y_drifted\<close>) are copied where they are used and are kept as values.
\<close>

type_synonym addr = nat

type_synonym 'f arrays = "'f list list list"

definition array_at :: "'f arrays \<Rightarrow> addr \<Rightarrow> 'f list list option" where
  "array_at h a = (if a < length h then Some (h ! a) else None)"

text \<open>
  A cell is a float64 or an int64 value. A column of a frame is either a view of one column
  of an array of the store, or data of its own. A frame is its number of rows (the row
  labels are the default range index \<open>0, 1, ...\<close>) and its labelled columns, in order.
\<close>

datatype 'f cell = Flt 'f | Lbl int

datatype 'f column = View addr nat | Own "'f cell list"

record 'f dataframe =
  fr_index :: nat
  fr_columns :: "(string \<times> 'f column) list"

definition empty_frame :: "'f dataframe" where
  "empty_frame = \<lparr>fr_index = 0, fr_columns = []\<rparr>"

text \<open>What a frame shows in a store: its column labels and its rows of cells.\<close>

record 'f table =
  df_columns :: "string list"
  df_rows :: "'f cell list list"

fun cell_of :: "'f arrays \<Rightarrow> 'f column \<Rightarrow> nat \<Rightarrow> 'f cell" where
  "cell_of h (View a j) i = Flt (h ! a ! i ! j)"
| "cell_of h (Own cs) i = cs ! i"

definition contents :: "'f arrays \<Rightarrow> 'f dataframe \<Rightarrow> 'f table" where
  "contents h df =
     \<lparr>df_columns = map fst (fr_columns df),
      df_rows = map (\<lambda>i. map (\<lambda>(c, col). cell_of h col i) (fr_columns df)) [0..<fr_index df]\<rparr>"

text \<open>\<^verbatim>\<open>[f"feature_{i}" for i in range(1, 11)]\<close>\<close>

definition feature_names :: "string list" where
  "feature_names = map (\<lambda>i. ''feature_'' @ str_nat i) [1..<11]"

text \<open>\<^verbatim>\<open>pd.DataFrame(X, columns=names)\<close> of the two-dimensional float array at address \<open>X\<close>:
  the array is not copied, column \<open>j\<close> of the frame is a view of column \<open>j\<close> of the array.
  pandas raises ValueError when the width of the array is not the number of labels. (An
  address that holds no array is a name that was never bound.)\<close>

definition DataFrame :: "'f arrays \<Rightarrow> addr \<Rightarrow> string list \<Rightarrow> py_error + 'f dataframe" where
  "DataFrame h X names =
     (case array_at h X of
        None \<Rightarrow> Inl (NameError ''name is not defined'')
      | Some A \<Rightarrow>
          if list_all (\<lambda>r. length r = length names) A
          then Inr \<lparr>fr_index = length A,
                    fr_columns = map (\<lambda>(j, name). (name, View X j)) (enumerate 0 names)\<rparr>
          else Inl (ValueError ''Shape of passed values does not match the columns''))"

text \<open>\<^verbatim>\<open>df[name] = values\<close>: the values are copied into a column of the frame's own; a new
  label appends the column, a known one is replaced by it. pandas raises ValueError when the
  length is not the number of rows.\<close>

definition set_column :: "'f dataframe \<Rightarrow> string \<Rightarrow> 'f cell list \<Rightarrow> py_error + 'f dataframe" where
  "set_column df name vals =
     (if length vals \<noteq> fr_index df
      then Inl (ValueError ''Length of values does not match length of index'')
      else if name \<in> set (map fst (fr_columns df))
      then Inr (df\<lparr>fr_columns :=
                    map (\<lambda>(c, col). if c = name then (c, Own vals) else (c, col)) (fr_columns df)\<rparr>)
      else Inr (df\<lparr>fr_columns := fr_columns df @ [(name, Own vals)]\<rparr>))"

text \<open>\<^verbatim>\<open>df.drop(name, axis=1)\<close>: a new frame without the columns of that label, with copies
  of the other columns; KeyError when there is none.\<close>

definition drop_column :: "'f arrays \<Rightarrow> 'f dataframe \<Rightarrow> string \<Rightarrow> py_error + 'f dataframe" where
  "drop_column h df name =
     (if name \<in> set (map fst (fr_columns df))
      then Inr (df\<lparr>fr_columns :=
                    map (\<lambda>(c, col). (c, Own (map (cell_of h col) [0..<fr_index df])))
                        (filter (\<lambda>(c, col). c \<noteq> name) (fr_columns df))\<rparr>)
      else Inl (KeyError name))"

text \<open>\<^verbatim>\<open>df.loc[idx, name] = f(df.loc[idx, name])\<close> for a list of row labels and a column
  of the frame: the cells of column \<open>name\<close> in the rows of \<open>idx\<close> are replaced in place, in
  the array of the store when the column is a view (the value is stored as a float64), in the
  frame when the column is its own; everything else is kept. KeyError when a row label is
  not in the index or the column is unknown (the frames of the notebook have the columns it
  names; a plain assignment to an unknown label would add a column in pandas).\<close>

definition replace_at :: "nat list \<Rightarrow> ('a \<Rightarrow> 'a) \<Rightarrow> 'a list \<Rightarrow> 'a list" where
  "replace_at idx f xs = map (\<lambda>(i, x). if i \<in> set idx then f x else x) (enumerate 0 xs)"

definition write_array :: "nat list \<Rightarrow> nat \<Rightarrow> ('f \<Rightarrow> 'f) \<Rightarrow> 'f list list \<Rightarrow> 'f list list" where
  "write_array idx j g A = replace_at idx (\<lambda>r. r[j := g (r ! j)]) A"

fun as_float :: "(int \<Rightarrow> 'f) \<Rightarrow> 'f cell \<Rightarrow> 'f" where
  "as_float conv (Flt x) = x"
| "as_float conv (Lbl n) = conv n"

fun write_view ::
  "(int \<Rightarrow> 'f) \<Rightarrow> nat list \<Rightarrow> string \<Rightarrow> ('f cell \<Rightarrow> 'f cell) \<Rightarrow> string \<times> 'f column \<Rightarrow>
   'f arrays \<Rightarrow> 'f arrays" where
  "write_view conv idx name f (c, View a j) h =
     (if c = name then h[a := write_array idx j (\<lambda>x. as_float conv (f (Flt x))) (h ! a)] else h)"
| "write_view conv idx name f (c, Own cs) h = h"

fun write_own ::
  "nat list \<Rightarrow> string \<Rightarrow> ('f cell \<Rightarrow> 'f cell) \<Rightarrow> string \<times> 'f column \<Rightarrow> string \<times> 'f column" where
  "write_own idx name f (c, Own cs) = (c, Own (if c = name then replace_at idx f cs else cs))"
| "write_own idx name f (c, View a j) = (c, View a j)"

definition loc_update ::
  "(int \<Rightarrow> 'f) \<Rightarrow> 'f arrays \<Rightarrow> 'f dataframe \<Rightarrow> nat list \<Rightarrow> string \<Rightarrow> ('f cell \<Rightarrow> 'f cell) \<Rightarrow>
   py_error + 'f arrays \<times> 'f dataframe" where
  "loc_update conv h df idx name f =
     (if \<not> list_all (\<lambda>i. i < fr_index df) idx then Inl (KeyError ''not in index'')
      else if name \<notin> set (map fst (fr_columns df)) then Inl (KeyError name)
      else Inr (fold (write_view conv idx name f) (fr_columns df) h,
                df\<lparr>fr_columns := map (write_own idx name f) (fr_columns df)\<rparr>))"

text \<open>The number of rows of \<^verbatim>\<open>df.sample(frac=p/q)\<close> on \<open>n\<close> rows: \<^verbatim>\<open>round(frac * n)\<close>, the nearest
  integer, the even one of two.\<close>

definition round_half_even :: "nat \<Rightarrow> nat \<Rightarrow> nat" where
  "round_half_even p q =
     (if 2 * (p mod q) < q then p div q
      else if q < 2 * (p mod q) then p div q + 1
      else if even (p div q) then p div q else p div q + 1)"

subsection \<open>The libraries and services\<close>

record mc_args =
  n_samples :: nat
  n_features :: nat
  n_informative :: nat
  n_redundant :: nat
  n_classes :: nat
  random_state :: nat

datatype arg = Str string | Flag bool

record monitor =
  m_role :: string
  instance_count :: nat
  instance_type :: string
  volume_size_in_gb :: nat
  max_runtime_in_seconds :: nat

text \<open>What the kernel does that can be seen from outside, in order.\<close>

datatype 'f event =
    ListBuckets
  | InvokeEndpoint string string string "py_error + string"
  | Print string
  | DisplayFrame "'f table"
  | DescribeEndpoint string
  | DisplayJSON string
  | GetObject "string option" string
  | CreateMonitoringSchedule monitor "(string \<times> arg) list"

record ('f, 'w) env =
  new_session :: "'w \<Rightarrow> py_error + unit"
  get_execution_role :: "'w \<Rightarrow> py_error + string"
  list_buckets :: "'w \<Rightarrow> py_error + string list"
  make_classification :: "mc_args \<Rightarrow> 'f list list \<times> int list"
  to_csv :: "'f table \<Rightarrow> string"
  sample_rows :: "nat \<Rightarrow> nat \<Rightarrow> nat \<Rightarrow> nat list"
  nan :: 'f
  fmul :: "'f \<Rightarrow> 'f \<Rightarrow> 'f"
  float_of_int :: "int \<Rightarrow> 'f"
  str_float :: "'f \<Rightarrow> string"
  float_of_str :: "string \<Rightarrow> py_error + 'f"
  invoke_endpoint :: "'w \<Rightarrow> string \<Rightarrow> string \<Rightarrow> string \<Rightarrow> 'w \<times> (py_error + string)"
  describe_endpoint :: "'w \<Rightarrow> string \<Rightarrow> py_error + string"
  get_object :: "'w \<Rightarrow> string \<Rightarrow> string \<Rightarrow> py_error + string"
  json_loads :: "string \<Rightarrow> py_error + string"
  cron_daily :: string
  create_monitoring_schedule :: "'w \<Rightarrow> monitor \<Rightarrow> (string \<times> arg) list \<Rightarrow> 'w \<times> (py_error + unit)"

text \<open>
  \<open>sample_rows env k n m\<close> are the labels of the \<open>m\<close> rows that the \<open>k\<close>-th draw of the
  notebook takes from a frame of \<open>n\<close> rows: the state of the random generator is an input.
  \<open>fmul\<close> is the float64 product. \<open>get_object env w b key\<close> is the answer of the service to
  \<^verbatim>\<open>s3.Object(b, key).get()["Body"].read().decode("utf-8")\<close> for a bucket name \<open>b\<close>.
\<close>

subsection \<open>The kernel state\<close>

text \<open>The variables \<open>X_normal\<close> and \<open>X_drifted\<close> hold the address of their array in the
  store, and None before they are assigned.\<close>

record ('f, 'w) nb =
  world :: 'w
  events :: "'f event list"
  files :: "string \<rightharpoonup> string"
  role :: string
  endpoint_name :: string
  bucket :: "string option"
  arrays :: "'f arrays"
  X_normal :: "addr option"
  y_normal :: "int list"
  df_normal :: "'f dataframe"
  X_drifted :: "addr option"
  y_drifted :: "int list"
  df_drifted :: "'f dataframe"
  inference_data :: "'f list list"
  baseline_statistics :: string
  baseline_constraints :: string
  statistics_content :: string
  constraints_content :: string

definition init_nb :: "'w \<Rightarrow> ('f, 'w) nb" where
  "init_nb w = \<lparr>world = w, events = [], files = Map.empty, role = [], endpoint_name = [],
     bucket = None, arrays = [], X_normal = None, y_normal = [], df_normal = empty_frame,
     X_drifted = None, y_drifted = [], df_drifted = empty_frame, inference_data = [],
     baseline_statistics = [], baseline_constraints = [],
     statistics_content = [], constraints_content = []\<rparr>"

definition emit :: "'f event \<Rightarrow> ('f, 'w) nb \<Rightarrow> ('f, 'w) nb" where
  "emit e st = st\<lparr>events := events st @ [e]\<rparr>"

subsection \<open>The cells\<close>

text \<open>Setting up the session: the bucket is the first one whose name starts with the
  prefix, and None when there is none (\<^verbatim>\<open>next(..., None)\<close>).\<close>

definition cell_setup :: "('f, 'w) env \<Rightarrow> ('f, 'w) nb \<Rightarrow> ('f, 'w) nb outcome" where
  "cell_setup env st =
     (case new_session env (world st) of
        Inl e \<Rightarrow> Raised e st
      | Inr u \<Rightarrow>
         (case get_execution_role env (world st) of
            Inl e \<Rightarrow> Raised e st
          | Inr r \<Rightarrow>
             (case list_buckets env (world st) of
                Inl e \<Rightarrow>
                  Raised e (emit ListBuckets (st\<lparr>role := r, endpoint_name := ''lab-sagemaker-endpoint''\<rparr>))
              | Inr names \<Rightarrow>
                  Done (emit ListBuckets
                         (st\<lparr>role := r, endpoint_name := ''lab-sagemaker-endpoint'',
                             bucket := find (prefix ''lab-sagemaker-'') names\<rparr>)))))"

definition normal_args :: mc_args where
  "normal_args = \<lparr>n_samples = 20, n_features = 10, n_informative = 8, n_redundant = 2,
     n_classes = 2, random_state = 42\<rparr>"

definition drifted_args :: mc_args where
  "drifted_args = \<lparr>n_samples = 20, n_features = 10, n_informative = 4, n_redundant = 6,
     n_classes = 2, random_state = 99\<rparr>"

text \<open>Generating the normal data: the new array is put into the store, the frame is built
  on it, the labels are added as the column \<open>target\<close>, and the frame is written to a file.\<close>

definition cell_make_normal :: "('f, 'w) env \<Rightarrow> ('f, 'w) nb \<Rightarrow> ('f, 'w) nb outcome" where
  "cell_make_normal env st =
     (let st1 = st\<lparr>arrays := arrays st @ [fst (make_classification env normal_args)],
                   X_normal := Some (length (arrays st)),
                   y_normal := snd (make_classification env normal_args)\<rparr>
      in case DataFrame (arrays st1) (length (arrays st)) feature_names of
           Inl e \<Rightarrow> Raised e st1
         | Inr df \<Rightarrow>
            (case set_column df ''target'' (map Lbl (y_normal st1)) of
               Inl e \<Rightarrow> Raised e (st1\<lparr>df_normal := df\<rparr>)
             | Inr df' \<Rightarrow>
                 Done (st1\<lparr>df_normal := df',
                           files := (files st1)(''synthetic_normal_data.csv'' \<mapsto>
                              to_csv env (contents (arrays st1) df'))\<rparr>)))"

definition cell_show_normal :: "('f, 'w) env \<Rightarrow> ('f, 'w) nb \<Rightarrow> ('f, 'w) nb outcome" where
  "cell_show_normal env st = Done (emit (DisplayFrame (contents (arrays st) (df_normal st))) st)"

text \<open>\<^verbatim>\<open>df.values\<close>: the rows as a float64 array (an int64 cell is converted).\<close>

definition to_float :: "('f, 'w) env \<Rightarrow> 'f cell \<Rightarrow> 'f" where
  "to_float env c = as_float (float_of_int env) c"

definition df_values :: "('f, 'w) env \<Rightarrow> 'f arrays \<Rightarrow> 'f dataframe \<Rightarrow> 'f list list" where
  "df_values env h df = map (map (to_float env)) (df_rows (contents h df))"

definition payload_of :: "('f, 'w) env \<Rightarrow> 'f list \<Rightarrow> string" where
  "payload_of env row = join '','' (map (str_float env) row)"

text \<open>The loop over the rows: one invocation, then the score is parsed and printed.\<close>

fun send_rows :: "('f, 'w) env \<Rightarrow> ('f, 'w) nb \<Rightarrow> 'f list list \<Rightarrow> ('f, 'w) nb outcome" where
  "send_rows env st [] = Done st"
| "send_rows env st (row # rest) =
     (case invoke_endpoint env (world st) (endpoint_name st) ''text/csv'' (payload_of env row) of
        (w', resp) \<Rightarrow>
          (let st1 = emit (InvokeEndpoint (endpoint_name st) ''text/csv'' (payload_of env row) resp)
                       (st\<lparr>world := w'\<rparr>)
           in case resp of
                Inl e \<Rightarrow> Raised e st1
              | Inr body \<Rightarrow>
                 (case float_of_str env body of
                    Inl e \<Rightarrow> Raised e st1
                  | Inr x \<Rightarrow> send_rows env (emit (Print (str_float env x)) st1) rest)))"

text \<open>\<^verbatim>\<open>inference_data = df.drop("target", axis=1).values\<close>, then the loop.\<close>

definition send_frame ::
  "('f, 'w) env \<Rightarrow> 'f dataframe \<Rightarrow> ('f, 'w) nb \<Rightarrow> ('f, 'w) nb outcome" where
  "send_frame env df st =
     (case drop_column (arrays st) df ''target'' of
        Inl e \<Rightarrow> Raised e st
      | Inr d \<Rightarrow> send_rows env (st\<lparr>inference_data := df_values env (arrays st) d\<rparr>)
                   (df_values env (arrays st) d))"

definition cell_send_normal :: "('f, 'w) env \<Rightarrow> ('f, 'w) nb \<Rightarrow> ('f, 'w) nb outcome" where
  "cell_send_normal env st = send_frame env (df_normal st) st"

text \<open>Generating the anomalous data: the new array is put into the store, and the frame is
  built on the array of \<open>X_normal\<close>, with the labels \<open>y_normal\<close>, as the cell is written.\<close>

definition cell_make_drifted :: "('f, 'w) env \<Rightarrow> ('f, 'w) nb \<Rightarrow> ('f, 'w) nb outcome" where
  "cell_make_drifted env st =
     (let st1 = st\<lparr>arrays := arrays st @ [fst (make_classification env drifted_args)],
                   X_drifted := Some (length (arrays st)),
                   y_drifted := snd (make_classification env drifted_args)\<rparr>
      in case X_normal st1 of
           None \<Rightarrow> Raised (NameError ''name X_normal is not defined'') st1
         | Some X \<Rightarrow>
            (case DataFrame (arrays st1) X feature_names of
               Inl e \<Rightarrow> Raised e st1
             | Inr df \<Rightarrow>
                (case set_column df ''target'' (map Lbl (y_normal st1)) of
                   Inl e \<Rightarrow> Raised e (st1\<lparr>df_drifted := df\<rparr>)
                 | Inr df' \<Rightarrow>
                     Done (st1\<lparr>df_drifted := df',
                               files := (files st1)(''synthetic_drifted_data.csv'' \<mapsto>
                                  to_csv env (contents (arrays st1) df'))\<rparr>))))"

definition cell_show_drifted :: "('f, 'w) env \<Rightarrow> ('f, 'w) nb \<Rightarrow> ('f, 'w) nb outcome" where
  "cell_show_drifted env st = Done (emit (DisplayFrame (contents (arrays st) (df_drifted st))) st)"

text \<open>Introducing data quality issues, in place. \<^verbatim>\<open>df.sample(frac=0.1).index\<close> are the labels
  of \<^verbatim>\<open>round(0.1 * len(df))\<close> rows, the fraction 0.1 taken as one tenth; \<^verbatim>\<open>*= 10\<close> is the
  product with the float64 10 (with 10 for an int64 cell).\<close>

definition df_sample :: "('f, 'w) env \<Rightarrow> nat \<Rightarrow> nat \<Rightarrow> nat \<Rightarrow> nat \<Rightarrow> nat list" where
  "df_sample env k p q n = sample_rows env k n (round_half_even (p * n) q)"

fun cell_times_ten :: "('f, 'w) env \<Rightarrow> 'f cell \<Rightarrow> 'f cell" where
  "cell_times_ten env (Flt x) = Flt (fmul env x (float_of_int env 10))"
| "cell_times_ten env (Lbl n) = Lbl (n * 10)"

definition cell_inject :: "('f, 'w) env \<Rightarrow> ('f, 'w) nb \<Rightarrow> ('f, 'w) nb outcome" where
  "cell_inject env st =
     (case loc_update (float_of_int env) (arrays st) (df_drifted st)
             (df_sample env 0 1 10 (fr_index (df_drifted st))) ''feature_1''
             (\<lambda>x. Flt (nan env)) of
        Inl e \<Rightarrow> Raised e st
      | Inr (h1, d1) \<Rightarrow>
         (case loc_update (float_of_int env) h1 d1
                 (df_sample env 1 1 10 (fr_index d1)) ''feature_2'' (cell_times_ten env) of
            Inl e \<Rightarrow> Raised e (st\<lparr>arrays := h1, df_drifted := d1\<rparr>)
          | Inr (h2, d2) \<Rightarrow> Done (st\<lparr>arrays := h2, df_drifted := d2\<rparr>)))"

definition cell_send_drifted :: "('f, 'w) env \<Rightarrow> ('f, 'w) nb \<Rightarrow> ('f, 'w) nb outcome" where
  "cell_send_drifted env st = send_frame env (df_drifted st) st"

definition cell_describe :: "('f, 'w) env \<Rightarrow> ('f, 'w) nb \<Rightarrow> ('f, 'w) nb outcome" where
  "cell_describe env st =
     (case describe_endpoint env (world st) (endpoint_name st) of
        Inl e \<Rightarrow> Raised e (emit (DescribeEndpoint (endpoint_name st)) st)
      | Inr response \<Rightarrow>
          Done (emit (DisplayJSON response) (emit (DescribeEndpoint (endpoint_name st)) st)))"

definition statistics_key :: string where
  "statistics_key = ''baseline_output/statistics.json''"

definition constraints_key :: string where
  "constraints_key = ''baseline_output/constraints.json''"

definition s3_uri :: "string option \<Rightarrow> string \<Rightarrow> string" where
  "s3_uri b key = ''s3://'' @ format_opt b @ ''/'' @ key"

definition cell_baseline_uris :: "('f, 'w) env \<Rightarrow> ('f, 'w) nb \<Rightarrow> ('f, 'w) nb outcome" where
  "cell_baseline_uris env st =
     Done (st\<lparr>baseline_statistics := s3_uri (bucket st) statistics_key,
              baseline_constraints := s3_uri (bucket st) constraints_key\<rparr>)"

text \<open>\<^verbatim>\<open>s3.Object(bucket, key).get()["Body"].read().decode("utf-8")\<close>: boto3 refuses the bucket
  None when the object is named, with ValueError and before any request is sent; for a bucket
  name the service answers.\<close>

definition s3_object_get ::
  "('f, 'w) env \<Rightarrow> 'w \<Rightarrow> string option \<Rightarrow> string \<Rightarrow> py_error + string" where
  "s3_object_get env w b key =
     (case b of
        None \<Rightarrow> Inl (ValueError ''Required parameter bucket_name not set'')
      | Some name \<Rightarrow> get_object env w name key)"

text \<open>Reading the two baseline files; a request is on the trace when it was sent.\<close>

definition requested :: "string option \<Rightarrow> string \<Rightarrow> ('f, 'w) nb \<Rightarrow> ('f, 'w) nb" where
  "requested b key st = (case b of None \<Rightarrow> st | Some name \<Rightarrow> emit (GetObject b key) st)"

definition cell_read_baseline :: "('f, 'w) env \<Rightarrow> ('f, 'w) nb \<Rightarrow> ('f, 'w) nb outcome" where
  "cell_read_baseline env st =
     (case s3_object_get env (world st) (bucket st) statistics_key of
        Inl e \<Rightarrow> Raised e (requested (bucket st) statistics_key st)
      | Inr s \<Rightarrow>
         (let st1 = (requested (bucket st) statistics_key st)\<lparr>statistics_content := s\<rparr>
          in case s3_object_get env (world st1) (bucket st1) constraints_key of
               Inl e \<Rightarrow> Raised e (requested (bucket st1) constraints_key st1)
             | Inr c \<Rightarrow>
                 Done ((requested (bucket st1) constraints_key st1)\<lparr>constraints_content := c\<rparr>)))"

definition cell_show_statistics :: "('f, 'w) env \<Rightarrow> ('f, 'w) nb \<Rightarrow> ('f, 'w) nb outcome" where
  "cell_show_statistics env st =
     (case json_loads env (statistics_content st) of
        Inl e \<Rightarrow> Raised e st
      | Inr doc \<Rightarrow> Done (emit (DisplayJSON doc) st))"

definition cell_show_constraints :: "('f, 'w) env \<Rightarrow> ('f, 'w) nb \<Rightarrow> ('f, 'w) nb outcome" where
  "cell_show_constraints env st =
     (case json_loads env (constraints_content st) of
        Inl e \<Rightarrow> Raised e st
      | Inr doc \<Rightarrow> Done (emit (DisplayJSON doc) st))"

definition the_monitor :: "('f, 'w) nb \<Rightarrow> monitor" where
  "the_monitor st = \<lparr>m_role = role st, instance_count = 1, instance_type = ''ml.m5.large'',
     volume_size_in_gb = 20, max_runtime_in_seconds = 3600\<rparr>"

definition schedule_kwargs :: "('f, 'w) env \<Rightarrow> ('f, 'w) nb \<Rightarrow> (string \<times> arg) list" where
  "schedule_kwargs env st =
     [(''endpoint_input'', Str (endpoint_name st)),
      (''output_s3_uri'', Str (s3_uri (bucket st) ''monitoring_output'')),
      (''statistics'', Str (baseline_statistics st)),
      (''constraints'', Str (baseline_constraints st)),
      (''schedule_cron_expression'', Str (cron_daily env)),
      (''enable_cloudwatch_metrics'', Flag True)]"

definition cell_create_schedule :: "('f, 'w) env \<Rightarrow> ('f, 'w) nb \<Rightarrow> ('f, 'w) nb outcome" where
  "cell_create_schedule env st =
     (case create_monitoring_schedule env (world st) (the_monitor st) (schedule_kwargs env st) of
        (w', r) \<Rightarrow>
          (let st1 = emit (CreateMonitoringSchedule (the_monitor st) (schedule_kwargs env st))
                       (st\<lparr>world := w'\<rparr>)
           in case r of Inl e \<Rightarrow> Raised e st1 | Inr u \<Rightarrow> Done st1))"

subsection \<open>Running the notebook\<close>

type_synonym ('f, 'w) cell_fn = "('f, 'w) env \<Rightarrow> ('f, 'w) nb \<Rightarrow> ('f, 'w) nb outcome"

fun run_cells :: "('f, 'w) env \<Rightarrow> ('f, 'w) cell_fn list \<Rightarrow> ('f, 'w) nb \<Rightarrow> ('f, 'w) nb outcome" where
  "run_cells env [] st = Done st"
| "run_cells env (c # cs) st =
     (case c env st of Done s \<Rightarrow> run_cells env cs s | Raised e s \<Rightarrow> Raised e s)"

definition notebook_cells :: "('f, 'w) cell_fn list" where
  "notebook_cells =
     [cell_setup, cell_make_normal, cell_show_normal, cell_send_normal,
      cell_make_drifted, cell_show_drifted, cell_inject, cell_send_drifted,
      cell_describe, cell_baseline_uris, cell_read_baseline,
      cell_show_statistics, cell_show_constraints, cell_create_schedule]"

definition notebook :: "('f, 'w) env \<Rightarrow> 'w \<Rightarrow> ('f, 'w) nb outcome" where
  "notebook env w = run_cells env notebook_cells (init_nb w)"

subsection \<open>The contracts of the libraries\<close>

text \<open>
  scikit-learn documents that \<open>make_classification\<close> returns an array of shape
  (\<open>n_samples\<close>, \<open>n_features\<close>) and \<open>n_samples\<close> integer labels below \<open>n_classes\<close>.
\<close>

definition mc_contract :: "('f, 'w) env \<Rightarrow> mc_args \<Rightarrow> bool" where
  "mc_contract env a =
     (length (fst (make_classification env a)) = n_samples a \<and>
      list_all (\<lambda>r. length r = n_features a) (fst (make_classification env a)) \<and>
      length (snd (make_classification env a)) = n_samples a \<and>
      list_all (\<lambda>l. 0 \<le> l \<and> l < int (n_classes a)) (snd (make_classification env a)))"

text \<open>
  pandas documents that \<open>sample\<close> draws the rows without replacement: \<open>m\<close> different row
  labels of the frame.
\<close>

definition sample_contract :: "('f, 'w) env \<Rightarrow> nat \<Rightarrow> nat \<Rightarrow> nat \<Rightarrow> bool" where
  "sample_contract env k n m =
     (distinct (sample_rows env k n m) \<and> list_all (\<lambda>i. i < n) (sample_rows env k n m) \<and>
      length (sample_rows env k n m) = m)"

subsection \<open>The tables and the trace, as the specification describes them\<close>

fun is_float :: "'f cell \<Rightarrow> bool" where
  "is_float (Flt x) = True"
| "is_float (Lbl n) = False"

fun binary_label :: "'f cell \<Rightarrow> bool" where
  "binary_label (Lbl n) = (n = 0 \<or> n = 1)"
| "binary_label (Flt x) = False"

text \<open>A row of ten numeric feature values and a binary label.\<close>

definition sample_row :: "'f cell list \<Rightarrow> bool" where
  "sample_row r = (length r = 11 \<and> list_all is_float (take 10 r) \<and> binary_label (r ! 10))"

text \<open>A tabular sample: twenty such rows under the columns feature_1 to feature_10 and
  target.\<close>

definition tabular_sample :: "'f table \<Rightarrow> bool" where
  "tabular_sample df =
     (df_columns df = feature_names @ [''target''] \<and> length (df_rows df) = 20 \<and>
      list_all sample_row (df_rows df))"

text \<open>The rows of features \<open>X\<close> with their labels \<open>y\<close>.\<close>

definition labelled :: "'f list list \<Rightarrow> int list \<Rightarrow> 'f cell list list" where
  "labelled X y = map (\<lambda>(r, l). map Flt r @ [Lbl l]) (zip X y)"

text \<open>A frame as the two data cells build it: twenty rows, the ten feature columns views of
  the columns of the array at address \<open>X\<close> (twenty rows of ten values), and a target column of
  the frame's own with the binary labels \<open>y\<close>.\<close>

definition feature_views :: "addr \<Rightarrow> (string \<times> 'f column) list" where
  "feature_views X = map (\<lambda>(j, name). (name, View X j)) (enumerate 0 feature_names)"

definition sample_frame :: "'f arrays \<Rightarrow> 'f dataframe \<Rightarrow> addr \<Rightarrow> int list \<Rightarrow> bool" where
  "sample_frame h df X y =
     (df = \<lparr>fr_index = 20, fr_columns = feature_views X @ [(''target'', Own (map Lbl y))]\<rparr> \<and>
      X < length h \<and> length (h ! X) = 20 \<and> list_all (\<lambda>r. length r = 10) (h ! X) \<and>
      length y = 20 \<and> list_all (\<lambda>l. l = 0 \<or> l = 1) y)"

text \<open>The views of a frame are views of arrays among the first \<open>n\<close> of the store.\<close>

definition views_within :: "nat \<Rightarrow> 'f dataframe \<Rightarrow> bool" where
  "views_within n df =
     list_all (\<lambda>(c, col). case col of View a j \<Rightarrow> a < n | Own cs \<Rightarrow> True) (fr_columns df)"

text \<open>The cell of row \<open>i\<close> in the column of a label.\<close>

definition column_index :: "'f table \<Rightarrow> string \<Rightarrow> nat" where
  "column_index df name = length (takeWhile (\<lambda>c. c \<noteq> name) (df_columns df))"

definition cell_at :: "'f table \<Rightarrow> nat \<Rightarrow> string \<Rightarrow> 'f cell" where
  "cell_at df i name = df_rows df ! i ! column_index df name"

text \<open>A row without the cells under a label.\<close>

definition without :: "string \<Rightarrow> string list \<Rightarrow> 'a list \<Rightarrow> 'a list" where
  "without name names r = map snd (filter (\<lambda>(c, x). c \<noteq> name) (zip names r))"

text \<open>What a run added to the trace, and its projections.\<close>

definition new_events :: "('f, 'w) nb \<Rightarrow> ('f, 'w) nb \<Rightarrow> 'f event list" where
  "new_events st s = drop (length (events st)) (events s)"

fun request_bodies :: "'f event list \<Rightarrow> string list" where
  "request_bodies [] = []"
| "request_bodies (InvokeEndpoint ep ct body resp # es) = body # request_bodies es"
| "request_bodies (e # es) = request_bodies es"

fun responses :: "'f event list \<Rightarrow> (py_error + string) list" where
  "responses [] = []"
| "responses (InvokeEndpoint ep ct body resp # es) = resp # responses es"
| "responses (e # es) = responses es"

fun printed :: "'f event list \<Rightarrow> string list" where
  "printed [] = []"
| "printed (Print s # es) = s # printed es"
| "printed (e # es) = printed es"

fun schedule_calls :: "'f event list \<Rightarrow> (monitor \<times> (string \<times> arg) list) list" where
  "schedule_calls [] = []"
| "schedule_calls (CreateMonitoringSchedule m kw # es) = (m, kw) # schedule_calls es"
| "schedule_calls (e # es) = schedule_calls es"

text \<open>\<^verbatim>\<open>print(float(result))\<close> of a response, when there is a body and it parses.\<close>

definition printed_score :: "('f, 'w) env \<Rightarrow> py_error + string \<Rightarrow> string option" where
  "printed_score env resp =
     (case resp of
        Inl e \<Rightarrow> None
      | Inr body \<Rightarrow> (case float_of_str env body of Inl e \<Rightarrow> None | Inr x \<Rightarrow> Some (str_float env x)))"

text \<open>One row's exchange with the endpoint: the invocation and its answer, then the
  printed score.\<close>

definition exchange :: "('f, 'w) env \<Rightarrow> string \<Rightarrow> 'f list \<times> string \<times> 'f \<Rightarrow> 'f event list" where
  "exchange env ep = (\<lambda>(row, body, x).
     [InvokeEndpoint ep ''text/csv'' (payload_of env row) (Inr body), Print (str_float env x)])"

text \<open>One exchange per row of the table, in row order, and nothing else added to the
  trace: every invocation is answered and its score printed before the next row is sent.\<close>

definition row_by_row ::
  "('f, 'w) env \<Rightarrow> 'f table \<Rightarrow> ('f, 'w) nb \<Rightarrow> ('f, 'w) nb \<Rightarrow> bool" where
  "row_by_row env df st s =
     (length (inference_data s) = length (df_rows df) \<and>
      (\<exists>answers. length answers = length (df_rows df) \<and>
         list_all (\<lambda>(b, x). float_of_str env b = Inr x) answers \<and>
         new_events st s =
           concat (map (exchange env (endpoint_name st)) (zip (inference_data s) answers))))"

text \<open>The values of a row written one after the other, a comma between two of them.\<close>

fun comma_separated :: "string list \<Rightarrow> string" where
  "comma_separated [] = []"
| "comma_separated (x # xs) = x @ concat (map (\<lambda>y. CHR '','' # y) xs)"

text \<open>The request bodies are the comma-separated renderings of the feature values of the
  rows, the last (target) cell removed, and what is printed is the parsed score of each
  response.\<close>

definition csv_exchange ::
  "('f, 'w) env \<Rightarrow> 'f table \<Rightarrow> ('f, 'w) nb \<Rightarrow> ('f, 'w) nb \<Rightarrow> bool" where
  "csv_exchange env df st s =
     (request_bodies (new_events st s) =
        map (\<lambda>r. comma_separated (map (\<lambda>c. str_float env (to_float env c)) (butlast r)))
            (df_rows df) \<and>
      length (responses (new_events st s)) = length (df_rows df) \<and>
      map Some (printed (new_events st s)) = map (printed_score env) (responses (new_events st s)))"

text \<open>The inputs of the schedule-creation call that the specification names.\<close>

definition named_inputs :: "string list" where
  "named_inputs = [''endpoint_input'', ''output_s3_uri'', ''statistics'', ''constraints'',
     ''schedule_cron_expression'']"

subsection \<open>A small instance of the libraries, for evaluating the cells\<close>

text \<open>
  A stand-in for the libraries and services on which the cells can be run: floats are the
  integers and NaN, \<open>make_classification\<close> returns \<open>n_samples\<close> rows of \<open>n_features\<close> values
  that depend on \<open>random_state\<close>, the sampler draws rows 3, 17 and then 3, 8, the endpoint
  answers 1.0 and 0.0 in turn, and the world counts the calls that change it.
\<close>

datatype dfloat = Fin int | NaN

definition str_int :: "int \<Rightarrow> string" where
  "str_int i = (if i < 0 then ''-'' @ str_nat (nat (- i)) else str_nat (nat i))"

fun str_dfloat :: "dfloat \<Rightarrow> string" where
  "str_dfloat (Fin i) = str_int i @ ''.0''"
| "str_dfloat NaN = ''nan''"

fun dfloat_mul :: "dfloat \<Rightarrow> dfloat \<Rightarrow> dfloat" where
  "dfloat_mul (Fin i) (Fin j) = Fin (i * j)"
| "dfloat_mul x y = NaN"

definition demo_make_classification :: "mc_args \<Rightarrow> dfloat list list \<times> int list" where
  "demo_make_classification a =
     (map (\<lambda>i. map (\<lambda>j. Fin (int (random_state a * 1000 + i * 10 + j))) [0..<n_features a])
          [0..<n_samples a],
      map (\<lambda>i. int (i mod n_classes a)) [0..<n_samples a])"

definition demo_to_csv :: "dfloat table \<Rightarrow> string" where
  "demo_to_csv df =
     join [CHR 0x0A]
       (join '','' (df_columns df) #
        map (\<lambda>r. join '','' (map (\<lambda>c. case c of Flt x \<Rightarrow> str_dfloat x | Lbl n \<Rightarrow> str_int n) r))
            (df_rows df))"

definition demo_float_of_str :: "string \<Rightarrow> py_error + dfloat" where
  "demo_float_of_str s =
     (if s = ''1.0'' then Inr (Fin 1) else if s = ''0.0'' then Inr (Fin 0)
      else Inl (ValueError ''could not convert string to float''))"

definition demo_bucket :: string where
  "demo_bucket = ''lab-sagemaker-0001''"

definition demo_env :: "(dfloat, nat) env" where
  "demo_env = \<lparr>
     new_session = (\<lambda>w. Inr ()),
     get_execution_role = (\<lambda>w. Inr ''lab-role''),
     list_buckets = (\<lambda>w. Inr [''cf-templates'', demo_bucket]),
     make_classification = demo_make_classification,
     to_csv = demo_to_csv,
     sample_rows = (\<lambda>k n m. if k = 0 then [3, 17] else [3, 8]),
     nan = NaN,
     fmul = dfloat_mul,
     float_of_int = Fin,
     str_float = str_dfloat,
     float_of_str = demo_float_of_str,
     invoke_endpoint = (\<lambda>w ep ct body.
        (Suc w, if ep = ''lab-sagemaker-endpoint''
                then Inr (if even w then ''1.0'' else ''0.0'')
                else Inl (ClientError ''ValidationError''))),
     describe_endpoint = (\<lambda>w ep. Inr ''{}''),
     get_object = (\<lambda>w b key.
        if b = demo_bucket \<and> (key = statistics_key \<or> key = constraints_key)
        then Inr ''{}'' else Inl (ClientError ''NoSuchKey'')),
     json_loads = Inr,
     cron_daily = ''cron(0 0 ? * * *)'',
     create_monitoring_schedule = (\<lambda>w m kw. (Suc w, Inr ()))\<rparr>"



text \<open>The notebook on the stand-in services, after its first \<open>k\<close> cells.\<close>

definition demo_after :: "nat \<Rightarrow> (dfloat, nat) nb outcome" where
  "demo_after k = run_cells demo_env (take k notebook_cells) (init_nb 0)"

definition demo_state :: "nat \<Rightarrow> (dfloat, nat) nb" where
  "demo_state k = final (demo_after k)"

text \<open>The table of the generated rows with their labels, and the frame built on the first
  array of the store.\<close>

definition demo_frame :: "dfloat table" where
  "demo_frame = \<lparr>df_columns = feature_names @ [''target''],
     df_rows = labelled (fst (demo_make_classification normal_args))
                        (snd (demo_make_classification normal_args))\<rparr>"

definition demo_session :: "(dfloat, nat) nb \<Rightarrow> bool" where
  "demo_session s =
     (endpoint_name s = ''lab-sagemaker-endpoint'' \<and> bucket s = Some demo_bucket \<and>
      role s = ''lab-role'')"

definition demo_data :: "(dfloat, nat) nb \<Rightarrow> bool" where
  "demo_data s =
     (X_normal s = Some 0 \<and>
      y_normal s = snd (demo_make_classification normal_args) \<and>
      sample_frame (arrays s) (df_normal s) 0 (snd (demo_make_classification normal_args)))"

section \<open>Properties\<close>

subsection \<open>What each cell leaves alone\<close>

text \<open>The loop changes the external world and the trace, and no variable of the kernel.\<close>

lemma send_rows_keeps:
  "files (final (send_rows env st rows)) = files st \<and>
   role (final (send_rows env st rows)) = role st \<and>
   endpoint_name (final (send_rows env st rows)) = endpoint_name st \<and>
   bucket (final (send_rows env st rows)) = bucket st \<and>
   arrays (final (send_rows env st rows)) = arrays st \<and>
   X_normal (final (send_rows env st rows)) = X_normal st \<and>
   y_normal (final (send_rows env st rows)) = y_normal st \<and>
   df_normal (final (send_rows env st rows)) = df_normal st \<and>
   X_drifted (final (send_rows env st rows)) = X_drifted st \<and>
   y_drifted (final (send_rows env st rows)) = y_drifted st \<and>
   df_drifted (final (send_rows env st rows)) = df_drifted st \<and>
   inference_data (final (send_rows env st rows)) = inference_data st \<and>
   baseline_statistics (final (send_rows env st rows)) = baseline_statistics st \<and>
   baseline_constraints (final (send_rows env st rows)) = baseline_constraints st \<and>
   statistics_content (final (send_rows env st rows)) = statistics_content st \<and>
   constraints_content (final (send_rows env st rows)) = constraints_content st"
proof (induction rows arbitrary: st)
  case Nil
  show ?case by simp
next
  case (Cons row rest)
  show ?case
  proof (cases "invoke_endpoint env (world st) (endpoint_name st) ''text/csv'' (payload_of env row)")
    case (Pair w' resp)
    show ?thesis
    proof (cases resp)
      case (Inl e)
      with Pair show ?thesis by (simp add: emit_def)
    next
      case (Inr body)
      show ?thesis
      proof (cases "float_of_str env body")
        case (Inl e)
        with Pair Inr show ?thesis by (simp add: emit_def)
      next
        case (Inr x)
        with Pair \<open>resp = Inr body\<close> show ?thesis
          using Cons.IH [of "emit (Print (str_float env x))
             (emit (InvokeEndpoint (endpoint_name st) ''text/csv'' (payload_of env row) resp)
                (st\<lparr>world := w'\<rparr>))"]
          by (simp add: emit_def)
      qed
    qed
  qed
qed

lemma send_frame_keeps:
  "files (final (send_frame env df st)) = files st \<and>
   role (final (send_frame env df st)) = role st \<and>
   endpoint_name (final (send_frame env df st)) = endpoint_name st \<and>
   bucket (final (send_frame env df st)) = bucket st \<and>
   arrays (final (send_frame env df st)) = arrays st \<and>
   X_normal (final (send_frame env df st)) = X_normal st \<and>
   y_normal (final (send_frame env df st)) = y_normal st \<and>
   df_normal (final (send_frame env df st)) = df_normal st \<and>
   X_drifted (final (send_frame env df st)) = X_drifted st \<and>
   y_drifted (final (send_frame env df st)) = y_drifted st \<and>
   df_drifted (final (send_frame env df st)) = df_drifted st \<and>
   baseline_statistics (final (send_frame env df st)) = baseline_statistics st \<and>
   baseline_constraints (final (send_frame env df st)) = baseline_constraints st \<and>
   statistics_content (final (send_frame env df st)) = statistics_content st \<and>
   constraints_content (final (send_frame env df st)) = constraints_content st"
  using send_rows_keeps [of env "st\<lparr>inference_data := df_values env (arrays st) d\<rparr>"
      "df_values env (arrays st) d" for d]
  by (auto simp: send_frame_def split: sum.splits)

lemma cell_setup_keeps:
  "world (final (cell_setup env st)) = world st \<and>
   files (final (cell_setup env st)) = files st \<and>
   arrays (final (cell_setup env st)) = arrays st \<and>
   X_normal (final (cell_setup env st)) = X_normal st \<and>
   y_normal (final (cell_setup env st)) = y_normal st \<and>
   df_normal (final (cell_setup env st)) = df_normal st \<and>
   X_drifted (final (cell_setup env st)) = X_drifted st \<and>
   y_drifted (final (cell_setup env st)) = y_drifted st \<and>
   df_drifted (final (cell_setup env st)) = df_drifted st \<and>
   inference_data (final (cell_setup env st)) = inference_data st \<and>
   baseline_statistics (final (cell_setup env st)) = baseline_statistics st \<and>
   baseline_constraints (final (cell_setup env st)) = baseline_constraints st \<and>
   statistics_content (final (cell_setup env st)) = statistics_content st \<and>
   constraints_content (final (cell_setup env st)) = constraints_content st"
  by (auto simp: cell_setup_def emit_def Let_def split: sum.splits prod.splits option.splits)

lemma cell_make_normal_keeps:
  "world (final (cell_make_normal env st)) = world st \<and>
   events (final (cell_make_normal env st)) = events st \<and>
   role (final (cell_make_normal env st)) = role st \<and>
   endpoint_name (final (cell_make_normal env st)) = endpoint_name st \<and>
   bucket (final (cell_make_normal env st)) = bucket st \<and>
   X_drifted (final (cell_make_normal env st)) = X_drifted st \<and>
   y_drifted (final (cell_make_normal env st)) = y_drifted st \<and>
   df_drifted (final (cell_make_normal env st)) = df_drifted st \<and>
   inference_data (final (cell_make_normal env st)) = inference_data st \<and>
   baseline_statistics (final (cell_make_normal env st)) = baseline_statistics st \<and>
   baseline_constraints (final (cell_make_normal env st)) = baseline_constraints st \<and>
   statistics_content (final (cell_make_normal env st)) = statistics_content st \<and>
   constraints_content (final (cell_make_normal env st)) = constraints_content st"
  by (auto simp: cell_make_normal_def emit_def Let_def split: sum.splits prod.splits option.splits)

lemma cell_show_normal_keeps:
  "world (final (cell_show_normal env st)) = world st \<and>
   files (final (cell_show_normal env st)) = files st \<and>
   role (final (cell_show_normal env st)) = role st \<and>
   endpoint_name (final (cell_show_normal env st)) = endpoint_name st \<and>
   bucket (final (cell_show_normal env st)) = bucket st \<and>
   arrays (final (cell_show_normal env st)) = arrays st \<and>
   X_normal (final (cell_show_normal env st)) = X_normal st \<and>
   y_normal (final (cell_show_normal env st)) = y_normal st \<and>
   df_normal (final (cell_show_normal env st)) = df_normal st \<and>
   X_drifted (final (cell_show_normal env st)) = X_drifted st \<and>
   y_drifted (final (cell_show_normal env st)) = y_drifted st \<and>
   df_drifted (final (cell_show_normal env st)) = df_drifted st \<and>
   inference_data (final (cell_show_normal env st)) = inference_data st \<and>
   baseline_statistics (final (cell_show_normal env st)) = baseline_statistics st \<and>
   baseline_constraints (final (cell_show_normal env st)) = baseline_constraints st \<and>
   statistics_content (final (cell_show_normal env st)) = statistics_content st \<and>
   constraints_content (final (cell_show_normal env st)) = constraints_content st"
  by (auto simp: cell_show_normal_def emit_def Let_def split: sum.splits prod.splits option.splits)

lemma cell_send_normal_keeps:
  "files (final (cell_send_normal env st)) = files st \<and>
   role (final (cell_send_normal env st)) = role st \<and>
   endpoint_name (final (cell_send_normal env st)) = endpoint_name st \<and>
   bucket (final (cell_send_normal env st)) = bucket st \<and>
   arrays (final (cell_send_normal env st)) = arrays st \<and>
   X_normal (final (cell_send_normal env st)) = X_normal st \<and>
   y_normal (final (cell_send_normal env st)) = y_normal st \<and>
   df_normal (final (cell_send_normal env st)) = df_normal st \<and>
   X_drifted (final (cell_send_normal env st)) = X_drifted st \<and>
   y_drifted (final (cell_send_normal env st)) = y_drifted st \<and>
   df_drifted (final (cell_send_normal env st)) = df_drifted st \<and>
   baseline_statistics (final (cell_send_normal env st)) = baseline_statistics st \<and>
   baseline_constraints (final (cell_send_normal env st)) = baseline_constraints st \<and>
   statistics_content (final (cell_send_normal env st)) = statistics_content st \<and>
   constraints_content (final (cell_send_normal env st)) = constraints_content st"
  by (simp add: cell_send_normal_def send_frame_keeps)

lemma cell_make_drifted_keeps:
  "world (final (cell_make_drifted env st)) = world st \<and>
   events (final (cell_make_drifted env st)) = events st \<and>
   role (final (cell_make_drifted env st)) = role st \<and>
   endpoint_name (final (cell_make_drifted env st)) = endpoint_name st \<and>
   bucket (final (cell_make_drifted env st)) = bucket st \<and>
   X_normal (final (cell_make_drifted env st)) = X_normal st \<and>
   y_normal (final (cell_make_drifted env st)) = y_normal st \<and>
   df_normal (final (cell_make_drifted env st)) = df_normal st \<and>
   inference_data (final (cell_make_drifted env st)) = inference_data st \<and>
   baseline_statistics (final (cell_make_drifted env st)) = baseline_statistics st \<and>
   baseline_constraints (final (cell_make_drifted env st)) = baseline_constraints st \<and>
   statistics_content (final (cell_make_drifted env st)) = statistics_content st \<and>
   constraints_content (final (cell_make_drifted env st)) = constraints_content st"
  by (auto simp: cell_make_drifted_def emit_def Let_def split: sum.splits prod.splits option.splits)

lemma cell_show_drifted_keeps:
  "world (final (cell_show_drifted env st)) = world st \<and>
   files (final (cell_show_drifted env st)) = files st \<and>
   role (final (cell_show_drifted env st)) = role st \<and>
   endpoint_name (final (cell_show_drifted env st)) = endpoint_name st \<and>
   bucket (final (cell_show_drifted env st)) = bucket st \<and>
   arrays (final (cell_show_drifted env st)) = arrays st \<and>
   X_normal (final (cell_show_drifted env st)) = X_normal st \<and>
   y_normal (final (cell_show_drifted env st)) = y_normal st \<and>
   df_normal (final (cell_show_drifted env st)) = df_normal st \<and>
   X_drifted (final (cell_show_drifted env st)) = X_drifted st \<and>
   y_drifted (final (cell_show_drifted env st)) = y_drifted st \<and>
   df_drifted (final (cell_show_drifted env st)) = df_drifted st \<and>
   inference_data (final (cell_show_drifted env st)) = inference_data st \<and>
   baseline_statistics (final (cell_show_drifted env st)) = baseline_statistics st \<and>
   baseline_constraints (final (cell_show_drifted env st)) = baseline_constraints st \<and>
   statistics_content (final (cell_show_drifted env st)) = statistics_content st \<and>
   constraints_content (final (cell_show_drifted env st)) = constraints_content st"
  by (auto simp: cell_show_drifted_def emit_def Let_def split: sum.splits prod.splits option.splits)

lemma cell_inject_keeps:
  "world (final (cell_inject env st)) = world st \<and>
   events (final (cell_inject env st)) = events st \<and>
   files (final (cell_inject env st)) = files st \<and>
   role (final (cell_inject env st)) = role st \<and>
   endpoint_name (final (cell_inject env st)) = endpoint_name st \<and>
   bucket (final (cell_inject env st)) = bucket st \<and>
   X_normal (final (cell_inject env st)) = X_normal st \<and>
   y_normal (final (cell_inject env st)) = y_normal st \<and>
   df_normal (final (cell_inject env st)) = df_normal st \<and>
   X_drifted (final (cell_inject env st)) = X_drifted st \<and>
   y_drifted (final (cell_inject env st)) = y_drifted st \<and>
   inference_data (final (cell_inject env st)) = inference_data st \<and>
   baseline_statistics (final (cell_inject env st)) = baseline_statistics st \<and>
   baseline_constraints (final (cell_inject env st)) = baseline_constraints st \<and>
   statistics_content (final (cell_inject env st)) = statistics_content st \<and>
   constraints_content (final (cell_inject env st)) = constraints_content st"
  by (auto simp: cell_inject_def emit_def Let_def split: sum.splits prod.splits option.splits)

lemma cell_send_drifted_keeps:
  "files (final (cell_send_drifted env st)) = files st \<and>
   role (final (cell_send_drifted env st)) = role st \<and>
   endpoint_name (final (cell_send_drifted env st)) = endpoint_name st \<and>
   bucket (final (cell_send_drifted env st)) = bucket st \<and>
   arrays (final (cell_send_drifted env st)) = arrays st \<and>
   X_normal (final (cell_send_drifted env st)) = X_normal st \<and>
   y_normal (final (cell_send_drifted env st)) = y_normal st \<and>
   df_normal (final (cell_send_drifted env st)) = df_normal st \<and>
   X_drifted (final (cell_send_drifted env st)) = X_drifted st \<and>
   y_drifted (final (cell_send_drifted env st)) = y_drifted st \<and>
   df_drifted (final (cell_send_drifted env st)) = df_drifted st \<and>
   baseline_statistics (final (cell_send_drifted env st)) = baseline_statistics st \<and>
   baseline_constraints (final (cell_send_drifted env st)) = baseline_constraints st \<and>
   statistics_content (final (cell_send_drifted env st)) = statistics_content st \<and>
   constraints_content (final (cell_send_drifted env st)) = constraints_content st"
  by (simp add: cell_send_drifted_def send_frame_keeps)

lemma cell_describe_keeps:
  "world (final (cell_describe env st)) = world st \<and>
   files (final (cell_describe env st)) = files st \<and>
   role (final (cell_describe env st)) = role st \<and>
   endpoint_name (final (cell_describe env st)) = endpoint_name st \<and>
   bucket (final (cell_describe env st)) = bucket st \<and>
   arrays (final (cell_describe env st)) = arrays st \<and>
   X_normal (final (cell_describe env st)) = X_normal st \<and>
   y_normal (final (cell_describe env st)) = y_normal st \<and>
   df_normal (final (cell_describe env st)) = df_normal st \<and>
   X_drifted (final (cell_describe env st)) = X_drifted st \<and>
   y_drifted (final (cell_describe env st)) = y_drifted st \<and>
   df_drifted (final (cell_describe env st)) = df_drifted st \<and>
   inference_data (final (cell_describe env st)) = inference_data st \<and>
   baseline_statistics (final (cell_describe env st)) = baseline_statistics st \<and>
   baseline_constraints (final (cell_describe env st)) = baseline_constraints st \<and>
   statistics_content (final (cell_describe env st)) = statistics_content st \<and>
   constraints_content (final (cell_describe env st)) = constraints_content st"
  by (auto simp: cell_describe_def emit_def Let_def split: sum.splits prod.splits option.splits)

lemma cell_baseline_uris_keeps:
  "world (final (cell_baseline_uris env st)) = world st \<and>
   events (final (cell_baseline_uris env st)) = events st \<and>
   files (final (cell_baseline_uris env st)) = files st \<and>
   role (final (cell_baseline_uris env st)) = role st \<and>
   endpoint_name (final (cell_baseline_uris env st)) = endpoint_name st \<and>
   bucket (final (cell_baseline_uris env st)) = bucket st \<and>
   arrays (final (cell_baseline_uris env st)) = arrays st \<and>
   X_normal (final (cell_baseline_uris env st)) = X_normal st \<and>
   y_normal (final (cell_baseline_uris env st)) = y_normal st \<and>
   df_normal (final (cell_baseline_uris env st)) = df_normal st \<and>
   X_drifted (final (cell_baseline_uris env st)) = X_drifted st \<and>
   y_drifted (final (cell_baseline_uris env st)) = y_drifted st \<and>
   df_drifted (final (cell_baseline_uris env st)) = df_drifted st \<and>
   inference_data (final (cell_baseline_uris env st)) = inference_data st \<and>
   statistics_content (final (cell_baseline_uris env st)) = statistics_content st \<and>
   constraints_content (final (cell_baseline_uris env st)) = constraints_content st"
  by (auto simp: cell_baseline_uris_def emit_def Let_def split: sum.splits prod.splits option.splits)

lemma cell_read_baseline_keeps:
  "world (final (cell_read_baseline env st)) = world st \<and>
   files (final (cell_read_baseline env st)) = files st \<and>
   role (final (cell_read_baseline env st)) = role st \<and>
   endpoint_name (final (cell_read_baseline env st)) = endpoint_name st \<and>
   bucket (final (cell_read_baseline env st)) = bucket st \<and>
   arrays (final (cell_read_baseline env st)) = arrays st \<and>
   X_normal (final (cell_read_baseline env st)) = X_normal st \<and>
   y_normal (final (cell_read_baseline env st)) = y_normal st \<and>
   df_normal (final (cell_read_baseline env st)) = df_normal st \<and>
   X_drifted (final (cell_read_baseline env st)) = X_drifted st \<and>
   y_drifted (final (cell_read_baseline env st)) = y_drifted st \<and>
   df_drifted (final (cell_read_baseline env st)) = df_drifted st \<and>
   inference_data (final (cell_read_baseline env st)) = inference_data st \<and>
   baseline_statistics (final (cell_read_baseline env st)) = baseline_statistics st \<and>
   baseline_constraints (final (cell_read_baseline env st)) = baseline_constraints st"
  by (auto simp: cell_read_baseline_def emit_def Let_def requested_def s3_object_get_def split: sum.splits prod.splits option.splits)

lemma cell_show_statistics_keeps:
  "world (final (cell_show_statistics env st)) = world st \<and>
   files (final (cell_show_statistics env st)) = files st \<and>
   role (final (cell_show_statistics env st)) = role st \<and>
   endpoint_name (final (cell_show_statistics env st)) = endpoint_name st \<and>
   bucket (final (cell_show_statistics env st)) = bucket st \<and>
   arrays (final (cell_show_statistics env st)) = arrays st \<and>
   X_normal (final (cell_show_statistics env st)) = X_normal st \<and>
   y_normal (final (cell_show_statistics env st)) = y_normal st \<and>
   df_normal (final (cell_show_statistics env st)) = df_normal st \<and>
   X_drifted (final (cell_show_statistics env st)) = X_drifted st \<and>
   y_drifted (final (cell_show_statistics env st)) = y_drifted st \<and>
   df_drifted (final (cell_show_statistics env st)) = df_drifted st \<and>
   inference_data (final (cell_show_statistics env st)) = inference_data st \<and>
   baseline_statistics (final (cell_show_statistics env st)) = baseline_statistics st \<and>
   baseline_constraints (final (cell_show_statistics env st)) = baseline_constraints st \<and>
   statistics_content (final (cell_show_statistics env st)) = statistics_content st \<and>
   constraints_content (final (cell_show_statistics env st)) = constraints_content st"
  by (auto simp: cell_show_statistics_def emit_def Let_def split: sum.splits prod.splits option.splits)

lemma cell_show_constraints_keeps:
  "world (final (cell_show_constraints env st)) = world st \<and>
   files (final (cell_show_constraints env st)) = files st \<and>
   role (final (cell_show_constraints env st)) = role st \<and>
   endpoint_name (final (cell_show_constraints env st)) = endpoint_name st \<and>
   bucket (final (cell_show_constraints env st)) = bucket st \<and>
   arrays (final (cell_show_constraints env st)) = arrays st \<and>
   X_normal (final (cell_show_constraints env st)) = X_normal st \<and>
   y_normal (final (cell_show_constraints env st)) = y_normal st \<and>
   df_normal (final (cell_show_constraints env st)) = df_normal st \<and>
   X_drifted (final (cell_show_constraints env st)) = X_drifted st \<and>
   y_drifted (final (cell_show_constraints env st)) = y_drifted st \<and>
   df_drifted (final (cell_show_constraints env st)) = df_drifted st \<and>
   inference_data (final (cell_show_constraints env st)) = inference_data st \<and>
   baseline_statistics (final (cell_show_constraints env st)) = baseline_statistics st \<and>
   baseline_constraints (final (cell_show_constraints env st)) = baseline_constraints st \<and>
   statistics_content (final (cell_show_constraints env st)) = statistics_content st \<and>
   constraints_content (final (cell_show_constraints env st)) = constraints_content st"
  by (auto simp: cell_show_constraints_def emit_def Let_def split: sum.splits prod.splits option.splits)

lemma cell_create_schedule_keeps:
  "files (final (cell_create_schedule env st)) = files st \<and>
   role (final (cell_create_schedule env st)) = role st \<and>
   endpoint_name (final (cell_create_schedule env st)) = endpoint_name st \<and>
   bucket (final (cell_create_schedule env st)) = bucket st \<and>
   arrays (final (cell_create_schedule env st)) = arrays st \<and>
   X_normal (final (cell_create_schedule env st)) = X_normal st \<and>
   y_normal (final (cell_create_schedule env st)) = y_normal st \<and>
   df_normal (final (cell_create_schedule env st)) = df_normal st \<and>
   X_drifted (final (cell_create_schedule env st)) = X_drifted st \<and>
   y_drifted (final (cell_create_schedule env st)) = y_drifted st \<and>
   df_drifted (final (cell_create_schedule env st)) = df_drifted st \<and>
   inference_data (final (cell_create_schedule env st)) = inference_data st \<and>
   baseline_statistics (final (cell_create_schedule env st)) = baseline_statistics st \<and>
   baseline_constraints (final (cell_create_schedule env st)) = baseline_constraints st \<and>
   statistics_content (final (cell_create_schedule env st)) = statistics_content st \<and>
   constraints_content (final (cell_create_schedule env st)) = constraints_content st"
  by (auto simp: cell_create_schedule_def emit_def Let_def split: sum.splits prod.splits option.splits)

text \<open>A run of cells keeps whatever each of its cells keeps.\<close>

lemma run_cells_keeps:
  assumes "\<And>c s. c \<in> set cs \<Longrightarrow> f (final (c env s)) = f s"
  shows "f (final (run_cells env cs st)) = f st"
  using assms
proof (induction cs arbitrary: st)
  case Nil
  show ?case by simp
next
  case (Cons c cs)
  show ?case
  proof (cases "c env st")
    case (Done s)
    have "f (final (run_cells env cs s)) = f s"
      using Cons.prems by (intro Cons.IH) simp
    moreover have "f s = f st"
      using Cons.prems [of c st] Done by simp
    ultimately show ?thesis using Done by simp
  next
    case (Raised e s)
    then show ?thesis using Cons.prems [of c st] by simp
  qed
qed

subsection \<open>Building the frames\<close>

lemma to_float_simps [simp]:
  "to_float env (Flt x) = x" "to_float env (Lbl n) = float_of_int env n"
  by (simp_all add: to_float_def)

lemma feature_names_eq:
  "feature_names = [''feature_1'', ''feature_2'', ''feature_3'', ''feature_4'', ''feature_5'',
     ''feature_6'', ''feature_7'', ''feature_8'', ''feature_9'', ''feature_10'']"
  by (simp add: feature_names_def upt_rec str_nat.simps digit_char_def)

lemma length_feature_names: "length feature_names = 10"
  by (simp add: feature_names_eq)

lemma target_not_feature: "''target'' \<notin> set feature_names"
  by (simp add: feature_names_eq)

lemma distinct_columns: "distinct (feature_names @ [''target''])"
  by (simp add: feature_names_eq)

lemma length_feature_views: "length (feature_views X) = 10"
  by (simp add: feature_views_def length_feature_names)

lemma feature_views_nth: "j < 10 \<Longrightarrow> feature_views X ! j = (feature_names ! j, View X j)"
  by (simp add: feature_views_def nth_enumerate_eq length_feature_names)

lemma map_fst_feature_views: "map fst (feature_views X) = feature_names"
  by (simp add: list_eq_iff_nth_eq length_feature_views length_feature_names feature_views_nth)

text \<open>A row of a frame built on an array: the row of the array, then the label.\<close>

lemma frame_row:
  assumes "length (h ! X ! i) = 10"
  shows "map (\<lambda>(c, col). cell_of h col i) (feature_views X @ [(''target'', Own cs)]) =
         map Flt (h ! X ! i) @ [cs ! i]"
proof -
  have "map (\<lambda>(c, col). cell_of h col i) (feature_views X) = map Flt (h ! X ! i)"
    using assms by (simp add: list_eq_iff_nth_eq length_feature_views feature_views_nth)
  then show ?thesis by simp
qed

lemma contents_frame:
  assumes "length (h ! X) = n" and "list_all (\<lambda>r. length r = 10) (h ! X)" and "length y = n"
  shows "contents h \<lparr>fr_index = n, fr_columns = feature_views X @ [(''target'', Own (map Lbl y))]\<rparr> =
         \<lparr>df_columns = feature_names @ [''target''], df_rows = labelled (h ! X) y\<rparr>"
proof -
  have "map (\<lambda>(c, col). cell_of h col i) (feature_views X @ [(''target'', Own (map Lbl y))]) =
        map Flt (h ! X ! i) @ [Lbl (y ! i)]" if "i < n" for i
    using that assms frame_row [of h X i "map Lbl y"] by (simp add: list_all_length)
  then have "map (\<lambda>i. map (\<lambda>(c, col). cell_of h col i)
                 (feature_views X @ [(''target'', Own (map Lbl y))])) [0..<n] = labelled (h ! X) y"
    using assms by (simp add: list_eq_iff_nth_eq labelled_def)
  then show ?thesis
    by (simp add: contents_def map_fst_feature_views)
qed

lemma frame_built:
  assumes "X < length h" and "list_all (\<lambda>r. length r = 10) (h ! X)" and "length y = length (h ! X)"
  shows "DataFrame h X feature_names =
           Inr \<lparr>fr_index = length (h ! X), fr_columns = feature_views X\<rparr>"
    and "set_column \<lparr>fr_index = length (h ! X), fr_columns = feature_views X\<rparr> ''target'' (map Lbl y) =
           Inr \<lparr>fr_index = length (h ! X),
                fr_columns = feature_views X @ [(''target'', Own (map Lbl y))]\<rparr>"
proof -
  show "DataFrame h X feature_names =
           Inr \<lparr>fr_index = length (h ! X), fr_columns = feature_views X\<rparr>"
    using assms by (simp add: DataFrame_def array_at_def length_feature_names feature_views_def)
  show "set_column \<lparr>fr_index = length (h ! X), fr_columns = feature_views X\<rparr> ''target'' (map Lbl y) =
           Inr \<lparr>fr_index = length (h ! X),
                fr_columns = feature_views X @ [(''target'', Own (map Lbl y))]\<rparr>"
    using assms by (simp add: set_column_def map_fst_feature_views target_not_feature)
qed

lemma sample_row_labelled:
  assumes "length r = 10" and "l = 0 \<or> l = 1"
  shows "sample_row (map Flt r @ [Lbl l])"
  using assms by (auto simp: sample_row_def list_all_iff nth_append)

lemma tabular_labelled:
  assumes "length X = 20" and "list_all (\<lambda>r. length r = 10) X"
    and "length y = 20" and "list_all (\<lambda>l. 0 \<le> l \<and> l < 2) y"
  shows "tabular_sample \<lparr>df_columns = feature_names @ [''target''], df_rows = labelled X y\<rparr>"
proof -
  have "sample_row row" if "row \<in> set (labelled X y)" for row
  proof -
    from that obtain r l where "(r, l) \<in> set (zip X y)" and row: "row = map Flt r @ [Lbl l]"
      by (auto simp: labelled_def)
    then have "r \<in> set X" and "l \<in> set y"
      by (auto dest: set_zip_leftD set_zip_rightD)
    with assms have "length r = 10" and "l = 0 \<or> l = 1"
      by (auto simp: list_all_iff)
    then show ?thesis
      unfolding row by (rule sample_row_labelled)
  qed
  then show ?thesis
    using assms by (simp add: tabular_sample_def labelled_def list_all_iff)
qed

text \<open>What a frame of the notebook shows.\<close>

lemma sample_frame_contents:
  assumes "sample_frame h df X y"
  shows "contents h df = \<lparr>df_columns = feature_names @ [''target''], df_rows = labelled (h ! X) y\<rparr>"
    and "tabular_sample (contents h df)"
proof -
  from assms have df: "df = \<lparr>fr_index = 20,
      fr_columns = feature_views X @ [(''target'', Own (map Lbl y))]\<rparr>"
    and shape: "length (h ! X) = 20" "list_all (\<lambda>r. length r = 10) (h ! X)" "length y = 20"
    and labels: "list_all (\<lambda>l. l = 0 \<or> l = 1) y"
    by (simp_all add: sample_frame_def)
  show c: "contents h df =
      \<lparr>df_columns = feature_names @ [''target''], df_rows = labelled (h ! X) y\<rparr>"
    unfolding df by (rule contents_frame) (rule shape)+
  from labels have "list_all (\<lambda>l. 0 \<le> l \<and> l < 2) y"
    by (auto simp: list_all_iff)
  with shape show "tabular_sample (contents h df)"
    unfolding c by (intro tabular_labelled)
qed

text \<open>The two cells that generate data, when the arrays have the documented shape.\<close>

lemma cell_make_normal_result:
  assumes "mc_contract env normal_args"
  shows "cell_make_normal env st =
     Done (st\<lparr>arrays := arrays st @ [fst (make_classification env normal_args)],
              X_normal := Some (length (arrays st)),
              y_normal := snd (make_classification env normal_args),
              df_normal := \<lparr>fr_index = 20,
                 fr_columns = feature_views (length (arrays st)) @
                   [(''target'', Own (map Lbl (snd (make_classification env normal_args))))]\<rparr>,
              files := (files st)(''synthetic_normal_data.csv'' \<mapsto>
                 to_csv env \<lparr>df_columns = feature_names @ [''target''],
                   df_rows = labelled (fst (make_classification env normal_args))
                                      (snd (make_classification env normal_args))\<rparr>)\<rparr>)"
proof -
  let ?X = "fst (make_classification env normal_args)"
  let ?y = "snd (make_classification env normal_args)"
  let ?h = "arrays st @ [?X]"
  let ?a = "length (arrays st)"
  from assms have at: "?h ! ?a = ?X" and len: "length ?X = 20"
    and shape: "?a < length ?h" "list_all (\<lambda>r. length r = 10) (?h ! ?a)" "length ?y = length (?h ! ?a)"
    by (simp_all add: mc_contract_def normal_args_def)
  have c: "contents ?h \<lparr>fr_index = 20, fr_columns = feature_views ?a @ [(''target'', Own (map Lbl ?y))]\<rparr> =
      \<lparr>df_columns = feature_names @ [''target''], df_rows = labelled ?X ?y\<rparr>"
    using contents_frame [of ?h ?a 20 ?y] shape len at by simp
  have d: "DataFrame ?h ?a feature_names = Inr \<lparr>fr_index = 20, fr_columns = feature_views ?a\<rparr>"
    using frame_built(1) [OF shape] len by simp
  have s: "set_column \<lparr>fr_index = 20, fr_columns = feature_views ?a\<rparr> ''target'' (map Lbl ?y) =
      Inr \<lparr>fr_index = 20, fr_columns = feature_views ?a @ [(''target'', Own (map Lbl ?y))]\<rparr>"
    using frame_built(2) [OF shape] len by simp
  show ?thesis
    unfolding cell_make_normal_def Let_def
    apply (simp add: d)
    apply (simp add: s)
    apply (simp add: c)
    done
qed

lemma cell_make_drifted_result:
  assumes "X_normal st = Some X" and "X < length (arrays st)"
    and "list_all (\<lambda>r. length r = 10) (arrays st ! X)"
    and "length (y_normal st) = length (arrays st ! X)"
  shows "cell_make_drifted env st =
     Done (st\<lparr>arrays := arrays st @ [fst (make_classification env drifted_args)],
              X_drifted := Some (length (arrays st)),
              y_drifted := snd (make_classification env drifted_args),
              df_drifted := \<lparr>fr_index = length (arrays st ! X),
                 fr_columns = feature_views X @ [(''target'', Own (map Lbl (y_normal st)))]\<rparr>,
              files := (files st)(''synthetic_drifted_data.csv'' \<mapsto>
                 to_csv env \<lparr>df_columns = feature_names @ [''target''],
                   df_rows = labelled (arrays st ! X) (y_normal st)\<rparr>)\<rparr>)"
proof -
  let ?h = "arrays st @ [fst (make_classification env drifted_args)]"
  let ?n = "length (arrays st ! X)"
  let ?y = "y_normal st"
  from assms have at: "?h ! X = arrays st ! X"
    and shape: "X < length ?h" "list_all (\<lambda>r. length r = 10) (?h ! X)" "length ?y = length (?h ! X)"
    by (simp_all add: nth_append)
  have c: "contents ?h \<lparr>fr_index = ?n, fr_columns = feature_views X @ [(''target'', Own (map Lbl ?y))]\<rparr> =
      \<lparr>df_columns = feature_names @ [''target''], df_rows = labelled (arrays st ! X) ?y\<rparr>"
    using contents_frame [of ?h X ?n ?y] shape at by simp
  have d: "DataFrame ?h X feature_names = Inr \<lparr>fr_index = ?n, fr_columns = feature_views X\<rparr>"
    using frame_built(1) [OF shape] at by simp
  have s: "set_column \<lparr>fr_index = ?n, fr_columns = feature_views X\<rparr> ''target'' (map Lbl ?y) =
      Inr \<lparr>fr_index = ?n, fr_columns = feature_views X @ [(''target'', Own (map Lbl ?y))]\<rparr>"
    using frame_built(2) [OF shape] at by simp
  show ?thesis
    unfolding cell_make_drifted_def Let_def
    apply (simp add: assms(1) d)
    apply (simp add: s)
    apply (simp add: c)
    done
qed

subsection \<open>Updating cells by label\<close>

lemma feature_views_eq:
  "feature_views X = [(''feature_1'', View X 0), (''feature_2'', View X 1),
     (''feature_3'', View X 2), (''feature_4'', View X 3), (''feature_5'', View X 4),
     (''feature_6'', View X 5), (''feature_7'', View X 6), (''feature_8'', View X 7),
     (''feature_9'', View X 8), (''feature_10'', View X 9)]"
  by (simp add: feature_views_def feature_names_eq eval_nat_numeral)

lemma length_write_array: "length (write_array idx j g A) = length A"
  by (simp add: write_array_def replace_at_def)

lemma write_array_nth:
  assumes "i < length A"
  shows "write_array idx j g A ! i = (if i \<in> set idx then (A ! i)[j := g (A ! i ! j)] else A ! i)"
  using assms by (simp add: write_array_def replace_at_def nth_enumerate_eq)

lemma write_array_cell:
  assumes "i < length A" and "j' < length (A ! i)"
  shows "write_array idx j g A ! i ! j' = (if i \<in> set idx \<and> j' = j then g (A ! i ! j') else A ! i ! j')"
  using assms by (auto simp: write_array_nth)

lemma write_array_row_length:
  assumes "i < length A"
  shows "length (write_array idx j g A ! i) = length (A ! i)"
  using assms by (simp add: write_array_nth)

text \<open>A write by label to a feature column of a frame built on the array at \<open>X\<close> is a
  write to that array, and leaves the frame as it is.\<close>

lemma loc_update_feature_1:
  assumes "list_all (\<lambda>i. i < 20) idx"
  shows "loc_update conv h \<lparr>fr_index = 20, fr_columns = feature_views X @ [(''target'', Own cs)]\<rparr>
           idx ''feature_1'' f =
         Inr (h[X := write_array idx 0 (\<lambda>x. as_float conv (f (Flt x))) (h ! X)],
              \<lparr>fr_index = 20, fr_columns = feature_views X @ [(''target'', Own cs)]\<rparr>)"
  using assms by (simp add: loc_update_def feature_views_eq)

lemma loc_update_feature_2:
  assumes "list_all (\<lambda>i. i < 20) idx"
  shows "loc_update conv h \<lparr>fr_index = 20, fr_columns = feature_views X @ [(''target'', Own cs)]\<rparr>
           idx ''feature_2'' f =
         Inr (h[X := write_array idx 1 (\<lambda>x. as_float conv (f (Flt x))) (h ! X)],
              \<lparr>fr_index = 20, fr_columns = feature_views X @ [(''target'', Own cs)]\<rparr>)"
  using assms by (simp add: loc_update_def feature_views_eq)

text \<open>The defect cell on a frame of the notebook: it writes to the array the frame is built
  on, cell by cell as follows, and to nothing else.\<close>

lemma cell_inject_cells:
  assumes fr: "sample_frame (arrays st) (df_drifted st) X y"
    and s0: "sample_contract env 0 20 2" and s1: "sample_contract env 1 20 2"
  shows "\<exists>A'. cell_inject env st = Done (st\<lparr>arrays := (arrays st)[X := A']\<rparr>) \<and>
     length A' = 20 \<and>
     (\<forall>i<20. length (A' ! i) = 10 \<and>
        (\<forall>j<10. A' ! i ! j =
           (if i \<in> set (sample_rows env 0 20 2) \<and> j = 0 then nan env
            else if i \<in> set (sample_rows env 1 20 2) \<and> j = 1
                 then fmul env (arrays st ! X ! i ! j) (float_of_int env 10)
                 else arrays st ! X ! i ! j)))"
proof -
  let ?h = "arrays st"
  let ?A = "?h ! X"
  let ?i0 = "sample_rows env 0 20 2"
  let ?i1 = "sample_rows env 1 20 2"
  let ?df = "\<lparr>fr_index = 20, fr_columns = feature_views X @ [(''target'', Own (map Lbl y))]\<rparr>
    :: 'a dataframe"
  define A1 where "A1 = write_array ?i0 0 (\<lambda>x. as_float (float_of_int env) (Flt (nan env))) ?A"
  define A2 where
    "A2 = write_array ?i1 1 (\<lambda>x. as_float (float_of_int env) (cell_times_ten env (Flt x))) A1"
  from fr have df: "df_drifted st = ?df" and X: "X < length ?h" and len: "length ?A = 20"
    and rowlen: "\<And>i. i < 20 \<Longrightarrow> length (?A ! i) = 10"
    by (simp_all add: sample_frame_def list_all_length)
  from s0 s1 have in0: "list_all (\<lambda>i. i < 20) ?i0" and in1: "list_all (\<lambda>i. i < 20) ?i1"
    by (simp_all add: sample_contract_def)
  have n: "df_sample env 0 1 10 20 = ?i0" "df_sample env 1 1 10 20 = ?i1"
    by (simp_all add: df_sample_def round_half_even_def)
  have u1: "loc_update (float_of_int env) ?h ?df ?i0 ''feature_1'' (\<lambda>x. Flt (nan env)) =
      Inr (?h[X := A1], ?df)"
    unfolding A1_def by (rule loc_update_feature_1) (rule in0)
  have "loc_update (float_of_int env) (?h[X := A1]) ?df ?i1 ''feature_2'' (cell_times_ten env) =
      Inr ((?h[X := A1])[X := write_array ?i1 1
              (\<lambda>x. as_float (float_of_int env) (cell_times_ten env (Flt x))) ((?h[X := A1]) ! X)], ?df)"
    by (rule loc_update_feature_2) (rule in1)
  then have u2: "loc_update (float_of_int env) (?h[X := A1]) ?df ?i1 ''feature_2''
      (cell_times_ten env) = Inr (?h[X := A2], ?df)"
    using X by (simp add: A2_def)
  have same: "st\<lparr>arrays := ?h[X := A2], df_drifted := ?df\<rparr> = st\<lparr>arrays := ?h[X := A2]\<rparr>"
    using df by simp
  have run: "cell_inject env st = Done (st\<lparr>arrays := ?h[X := A2]\<rparr>)"
    unfolding cell_inject_def df
    by (simp only: dataframe.select_convs n u1 u2 sum.case prod.case same)
  have len1: "length A1 = 20"
    by (simp add: A1_def length_write_array len)
  have len2: "length A2 = 20"
    by (simp add: A2_def length_write_array len1)
  have rowlen1: "length (A1 ! i) = 10" if "i < 20" for i
    using that rowlen [OF that] by (simp add: A1_def write_array_row_length len)
  have rowlen2: "length (A2 ! i) = 10" if "i < 20" for i
    using that rowlen1 [OF that] by (simp add: A2_def write_array_row_length len1)
  have c1: "A1 ! i ! j = (if i \<in> set ?i0 \<and> j = 0 then nan env else ?A ! i ! j)"
    if "i < 20" and "j < 10" for i j
    using that rowlen [OF that(1)] by (simp add: A1_def write_array_cell len)
  have c2: "A2 ! i ! j =
      (if i \<in> set ?i1 \<and> j = 1 then fmul env (A1 ! i ! j) (float_of_int env 10) else A1 ! i ! j)"
    if "i < 20" and "j < 10" for i j
    using that rowlen1 [OF that(1)] by (simp add: A2_def write_array_cell len1)
  have cells: "A2 ! i ! j =
      (if i \<in> set ?i0 \<and> j = 0 then nan env
       else if i \<in> set ?i1 \<and> j = 1 then fmul env (?A ! i ! j) (float_of_int env 10)
       else ?A ! i ! j)"
    if "i < 20" and "j < 10" for i j
    unfolding c2 [OF that] c1 [OF that] by simp
  from run len2 rowlen2 cells show ?thesis
    by (intro exI [of _ A2]) simp
qed

text \<open>The cells of a frame of the notebook, by position.\<close>

lemma labelled_cell:
  assumes "i < length X" and "length y = length X" and "length (X ! i) = 10" and "j < 11"
  shows "labelled X y ! i ! j = (if j < 10 then Flt (X ! i ! j) else Lbl (y ! i))"
  using assms by (auto simp: labelled_def nth_append)

lemma labelled_row_length:
  assumes "i < length X" and "length y = length X" and "length (X ! i) = 10"
  shows "length (labelled X y ! i) = 11"
  using assms by (simp add: labelled_def)

lemma length_labelled: "length y = length X \<Longrightarrow> length (labelled X y) = length X"
  by (simp add: labelled_def)

lemma column_feature_1:
  "j < 11 \<Longrightarrow> ((feature_names @ [''target'']) ! j = ''feature_1'') = (j = 0)"
  using nth_eq_iff_index_eq [OF distinct_columns, of j 0]
  by (simp add: length_feature_names) (simp add: feature_names_eq)

lemma column_feature_2:
  "j < 11 \<Longrightarrow> ((feature_names @ [''target'']) ! j = ''feature_2'') = (j = 1)"
  using nth_eq_iff_index_eq [OF distinct_columns, of j 1]
  by (simp add: length_feature_names) (simp add: feature_names_eq)

lemma column_index_found:
  "c \<in> set xs \<Longrightarrow>
   length (takeWhile (\<lambda>x. x \<noteq> c) xs) < length xs \<and> xs ! length (takeWhile (\<lambda>x. x \<noteq> c) xs) = c"
  by (induction xs) auto

text \<open>The defect cell leaves a frame of the notebook a frame of the notebook, on the
  rewritten array.\<close>

lemma cell_inject_frame:
  assumes fr: "sample_frame (arrays st) (df_drifted st) X y"
    and s0: "sample_contract env 0 20 2" and s1: "sample_contract env 1 20 2"
  shows "is_Done (cell_inject env st) \<and>
     df_drifted (final (cell_inject env st)) = df_drifted st \<and>
     sample_frame (arrays (final (cell_inject env st))) (df_drifted st) X y"
proof -
  from cell_inject_cells [OF assms] obtain A' where
    run: "cell_inject env st = Done (st\<lparr>arrays := (arrays st)[X := A']\<rparr>)"
    and len: "length A' = 20" and rows: "\<And>i. i < 20 \<Longrightarrow> length (A' ! i) = 10"
    by blast
  from fr len rows have "sample_frame ((arrays st)[X := A']) (df_drifted st) X y"
    by (simp add: sample_frame_def list_all_length)
  with run show ?thesis by simp
qed

subsection \<open>When the loop completes\<close>

lemma send_rows_Done:
  assumes ok: "\<And>w body. \<exists>w' b x. invoke_endpoint env w ep ''text/csv'' body = (w', Inr b) \<and>
                  float_of_str env b = Inr x"
    and ep: "endpoint_name st = ep"
  shows "is_Done (send_rows env st rows)"
  using ep
proof (induction rows arbitrary: st)
  case Nil
  show ?case by simp
next
  case (Cons row rest)
  from ok [of "world st" "payload_of env row"] obtain w' b x where
    call: "invoke_endpoint env (world st) ep ''text/csv'' (payload_of env row) = (w', Inr b)"
    and parse: "float_of_str env b = Inr x"
    by blast
  have "is_Done (send_rows env (emit (Print (str_float env x))
          (emit (InvokeEndpoint ep ''text/csv'' (payload_of env row) (Inr b)) (st\<lparr>world := w'\<rparr>))) rest)"
    using Cons.prems by (intro Cons.IH) (simp add: emit_def)
  with call parse Cons.prems show ?case by simp
qed

lemma send_frame_Done:
  assumes "\<And>w body. \<exists>w' b x. invoke_endpoint env w ep ''text/csv'' body = (w', Inr b) \<and>
                  float_of_str env b = Inr x"
    and "endpoint_name st = ep" and "''target'' \<in> set (map fst (fr_columns df))"
  shows "is_Done (send_frame env df st)"
  using assms(2,3) send_rows_Done [of env ep, OF assms(1)]
  by (simp add: send_frame_def drop_column_def)

subsection \<open>Running cells one after the other\<close>

lemma Done_final: "is_Done out \<Longrightarrow> out = Done (final out)"
  by (cases out) simp_all

lemma run_cells_append:
  "run_cells env (cs @ ds) st =
     (case run_cells env cs st of Done s \<Rightarrow> run_cells env ds s | Raised e s \<Rightarrow> Raised e s)"
  by (induction cs arbitrary: st) (auto split: outcome.splits)

lemma run_cells_snoc:
  assumes "is_Done (run_cells env cs st)"
  shows "run_cells env (cs @ [c]) st = c env (final (run_cells env cs st))"
  using assms by (cases "run_cells env cs st") (auto simp: run_cells_append split: outcome.splits)

lemma length_notebook_cells: "length notebook_cells = 14"
  by (simp add: notebook_cells_def)

subsection \<open>The notebook on the stand-in services\<close>

lemma demo_after_step:
  assumes "is_Done (demo_after k)" and "k < 14" and "k' = Suc k"
  shows "demo_after k' = (notebook_cells ! k) demo_env (demo_state k)"
  using assms run_cells_snoc [of demo_env "take k notebook_cells" "init_nb 0" "notebook_cells ! k"]
  by (simp add: demo_after_def demo_state_def take_Suc_conv_app_nth length_notebook_cells)

lemma demo_contract: "mc_contract demo_env normal_args"
  by (simp add: mc_contract_def demo_env_def demo_make_classification_def normal_args_def
      list_all_iff)

lemma demo_samples: "sample_contract demo_env 0 20 2" "sample_contract demo_env 1 20 2"
  by (simp_all add: sample_contract_def demo_env_def)

lemma demo_endpoint:
  "\<exists>w' b x. invoke_endpoint demo_env w ''lab-sagemaker-endpoint'' ''text/csv'' body = (w', Inr b) \<and>
     float_of_str demo_env b = Inr x"
  by (simp add: demo_env_def demo_float_of_str_def)

lemma demo_frame_tabular: "tabular_sample demo_frame"
  unfolding demo_frame_def using demo_contract
  by (intro tabular_labelled) (simp_all add: mc_contract_def demo_env_def normal_args_def)

lemma demo_shape:
  "length (fst (demo_make_classification normal_args)) = 20"
  "list_all (\<lambda>r. length r = 10) (fst (demo_make_classification normal_args))"
  "length (snd (demo_make_classification normal_args)) = 20"
  "list_all (\<lambda>l. l = 0 \<or> l = 1) (snd (demo_make_classification normal_args))"
  by (auto simp: demo_make_classification_def normal_args_def list_all_iff)

text \<open>On the array as it was generated, a frame of the notebook shows the generated rows.\<close>

lemma demo_contents:
  assumes "demo_data s" and "arrays s ! 0 = fst (demo_make_classification normal_args)"
  shows "contents (arrays s) (df_normal s) = demo_frame"
  using sample_frame_contents(1) [of "arrays s" "df_normal s" 0
      "snd (demo_make_classification normal_args)"] assms
  by (simp add: demo_data_def demo_frame_def)

lemma demo_target:
  assumes "demo_data s"
  shows "''target'' \<in> set (map fst (fr_columns (df_normal s)))"
  using assms by (simp add: demo_data_def sample_frame_def)

lemma cells_nth:
  "notebook_cells ! 0 = cell_setup" "notebook_cells ! 1 = cell_make_normal"
  "notebook_cells ! 2 = cell_show_normal" "notebook_cells ! 3 = cell_send_normal"
  "notebook_cells ! 4 = cell_make_drifted" "notebook_cells ! 5 = cell_show_drifted"
  "notebook_cells ! 6 = cell_inject" "notebook_cells ! 7 = cell_send_drifted"
  "notebook_cells ! 8 = cell_describe" "notebook_cells ! 9 = cell_baseline_uris"
  "notebook_cells ! 10 = cell_read_baseline" "notebook_cells ! 11 = cell_show_statistics"
  "notebook_cells ! 12 = cell_show_constraints" "notebook_cells ! 13 = cell_create_schedule"
  by (simp_all add: notebook_cells_def)

lemma demo_after_1:
  "is_Done (demo_after 1) \<and> demo_session (demo_state 1) \<and> arrays (demo_state 1) = []"
  by (simp add: demo_state_def demo_after_def notebook_cells_def cell_setup_def demo_env_def
      init_nb_def emit_def demo_bucket_def demo_session_def)

lemma demo_after_2:
  "is_Done (demo_after 2) \<and> demo_session (demo_state 2) \<and> demo_data (demo_state 2) \<and>
   arrays (demo_state 2) = [fst (demo_make_classification normal_args)]"
proof -
  have "demo_after 2 = (notebook_cells ! 1) demo_env (demo_state 1)"
    by (rule demo_after_step) (use demo_after_1 in simp_all)
  then have step: "demo_after 2 = cell_make_normal demo_env (demo_state 1)"
    by (simp only: cells_nth)
  have mc: "make_classification demo_env = demo_make_classification"
    by (simp add: demo_env_def)
  show ?thesis
    using demo_after_1 demo_shape
    by (simp add: demo_state_def [of 2] step cell_make_normal_result [OF demo_contract] mc
        demo_session_def demo_data_def sample_frame_def)
qed

lemma demo_after_3:
  "is_Done (demo_after 3) \<and> demo_session (demo_state 3) \<and> demo_data (demo_state 3) \<and>
   arrays (demo_state 3) = [fst (demo_make_classification normal_args)]"
proof -
  have "demo_after 3 = (notebook_cells ! 2) demo_env (demo_state 2)"
    by (rule demo_after_step) (use demo_after_2 in simp_all)
  then have step: "demo_after 3 = cell_show_normal demo_env (demo_state 2)"
    by (simp only: cells_nth)
  show ?thesis
    using demo_after_2
    by (clarsimp simp: demo_state_def [of 3] step demo_session_def demo_data_def cell_show_normal_keeps)
      (simp add: cell_show_normal_def)
qed

lemma demo_after_4:
  "is_Done (demo_after 4) \<and> demo_session (demo_state 4) \<and> demo_data (demo_state 4) \<and>
   arrays (demo_state 4) = [fst (demo_make_classification normal_args)]"
proof -
  have "demo_after 4 = (notebook_cells ! 3) demo_env (demo_state 3)"
    by (rule demo_after_step) (use demo_after_3 in simp_all)
  then have step: "demo_after 4 = cell_send_normal demo_env (demo_state 3)"
    by (simp only: cells_nth)
  have "is_Done (cell_send_normal demo_env (demo_state 3))"
    unfolding cell_send_normal_def using demo_after_3
    by (intro send_frame_Done [of demo_env "''lab-sagemaker-endpoint''"] demo_endpoint demo_target)
      (simp_all add: demo_session_def)
  then show ?thesis
    using demo_after_3
    by (clarsimp simp: demo_state_def [of 4] step demo_session_def demo_data_def cell_send_normal_keeps)
qed

lemma demo_after_5:
  "is_Done (demo_after 5) \<and> demo_session (demo_state 5) \<and> demo_data (demo_state 5) \<and>
   arrays (demo_state 5) = [fst (demo_make_classification normal_args),
                            fst (demo_make_classification drifted_args)] \<and>
   df_drifted (demo_state 5) = df_normal (demo_state 5) \<and>
   X_drifted (demo_state 5) = Some 1"
proof -
  have "demo_after 5 = (notebook_cells ! 4) demo_env (demo_state 4)"
    by (rule demo_after_step) (use demo_after_4 in simp_all)
  then have step: "demo_after 5 = cell_make_drifted demo_env (demo_state 4)"
    by (simp only: cells_nth)
  have shape: "X_normal (demo_state 4) = Some 0" "0 < length (arrays (demo_state 4))"
    "list_all (\<lambda>r. length r = 10) (arrays (demo_state 4) ! 0)"
    "length (y_normal (demo_state 4)) = length (arrays (demo_state 4) ! 0)"
    using demo_after_4 demo_shape by (simp_all add: demo_data_def)
  show ?thesis
    using demo_after_4 demo_shape
    by (simp add: demo_state_def [of 5] step cell_make_drifted_result [OF shape]
        demo_session_def demo_data_def sample_frame_def demo_env_def)
qed

lemma demo_after_6:
  "is_Done (demo_after 6) \<and> demo_session (demo_state 6) \<and> demo_data (demo_state 6) \<and>
   arrays (demo_state 6) = [fst (demo_make_classification normal_args),
                            fst (demo_make_classification drifted_args)] \<and>
   df_drifted (demo_state 6) = df_normal (demo_state 6)"
proof -
  have "demo_after 6 = (notebook_cells ! 5) demo_env (demo_state 5)"
    by (rule demo_after_step) (use demo_after_5 in simp_all)
  then have step: "demo_after 6 = cell_show_drifted demo_env (demo_state 5)"
    by (simp only: cells_nth)
  show ?thesis
    using demo_after_5
    by (clarsimp simp: demo_state_def [of 6] step demo_session_def demo_data_def cell_show_drifted_keeps)
      (simp add: cell_show_drifted_def)
qed

lemma demo_inject_step: "demo_state 7 = final (cell_inject demo_env (demo_state 6))"
proof -
  have "demo_after 7 = (notebook_cells ! 6) demo_env (demo_state 6)"
    by (rule demo_after_step) (use demo_after_6 in simp_all)
  then show ?thesis
    by (simp only: cells_nth demo_state_def [of 7])
qed

lemma demo_frame_6:
  "sample_frame (arrays (demo_state 6)) (df_drifted (demo_state 6)) 0
     (snd (demo_make_classification normal_args))"
  using demo_after_6 by (clarsimp simp: demo_data_def)

lemma demo_after_7:
  "is_Done (demo_after 7) \<and> demo_session (demo_state 7) \<and> demo_data (demo_state 7) \<and>
   df_drifted (demo_state 7) = df_normal (demo_state 7)"
proof -
  have "demo_after 7 = (notebook_cells ! 6) demo_env (demo_state 6)"
    by (rule demo_after_step) (use demo_after_6 in simp_all)
  then have step: "demo_after 7 = cell_inject demo_env (demo_state 6)"
    by (simp only: cells_nth)
  from cell_inject_frame [OF demo_frame_6 demo_samples] show ?thesis
    using demo_after_6
    by (clarsimp simp: demo_state_def [of 7] step demo_session_def demo_data_def cell_inject_keeps)
qed

lemma demo_after_8:
  "is_Done (demo_after 8) \<and> demo_session (demo_state 8) \<and> demo_data (demo_state 8) \<and>
   df_drifted (demo_state 8) = df_normal (demo_state 8)"
proof -
  have "demo_after 8 = (notebook_cells ! 7) demo_env (demo_state 7)"
    by (rule demo_after_step) (use demo_after_7 in simp_all)
  then have step: "demo_after 8 = cell_send_drifted demo_env (demo_state 7)"
    by (simp only: cells_nth)
  have "''target'' \<in> set (map fst (fr_columns (df_drifted (demo_state 7))))"
    using demo_after_7 demo_target [of "demo_state 7"] by simp
  then have "is_Done (cell_send_drifted demo_env (demo_state 7))"
    unfolding cell_send_drifted_def using demo_after_7
    by (intro send_frame_Done [of demo_env "''lab-sagemaker-endpoint''"] demo_endpoint)
      (simp_all add: demo_session_def)
  then show ?thesis
    using demo_after_7
    by (clarsimp simp: demo_state_def [of 8] step demo_session_def demo_data_def cell_send_drifted_keeps)
qed

lemma demo_after_9: "is_Done (demo_after 9) \<and> demo_session (demo_state 9)"
proof -
  have "demo_after 9 = (notebook_cells ! 8) demo_env (demo_state 8)"
    by (rule demo_after_step) (use demo_after_8 in simp_all)
  then have step: "demo_after 9 = cell_describe demo_env (demo_state 8)"
    by (simp only: cells_nth)
  show ?thesis
    using demo_after_8
    by (simp add: demo_state_def [of 9] step demo_session_def cell_describe_keeps)
      (simp add: cell_describe_def demo_env_def)
qed

lemma demo_after_10: "is_Done (demo_after 10) \<and> demo_session (demo_state 10)"
proof -
  have "demo_after 10 = (notebook_cells ! 9) demo_env (demo_state 9)"
    by (rule demo_after_step) (use demo_after_9 in simp_all)
  then have step: "demo_after 10 = cell_baseline_uris demo_env (demo_state 9)"
    by (simp only: cells_nth)
  show ?thesis
    using demo_after_9
    by (simp add: demo_state_def [of 10] step demo_session_def cell_baseline_uris_keeps)
      (simp add: cell_baseline_uris_def)
qed

lemma demo_after_11: "is_Done (demo_after 11) \<and> demo_session (demo_state 11)"
proof -
  have "demo_after 11 = (notebook_cells ! 10) demo_env (demo_state 10)"
    by (rule demo_after_step) (use demo_after_10 in simp_all)
  then have step: "demo_after 11 = cell_read_baseline demo_env (demo_state 10)"
    by (simp only: cells_nth)
  show ?thesis
    using demo_after_10
    by (simp add: demo_state_def [of 11] step demo_session_def cell_read_baseline_keeps)
      (simp add: cell_read_baseline_def s3_object_get_def requested_def demo_env_def emit_def)
qed

lemma demo_after_12: "is_Done (demo_after 12) \<and> demo_session (demo_state 12)"
proof -
  have "demo_after 12 = (notebook_cells ! 11) demo_env (demo_state 11)"
    by (rule demo_after_step) (use demo_after_11 in simp_all)
  then have step: "demo_after 12 = cell_show_statistics demo_env (demo_state 11)"
    by (simp only: cells_nth)
  show ?thesis
    using demo_after_11
    by (simp add: demo_state_def [of 12] step demo_session_def cell_show_statistics_keeps)
      (simp add: cell_show_statistics_def demo_env_def)
qed

lemma demo_after_13: "is_Done (demo_after 13) \<and> demo_session (demo_state 13)"
proof -
  have "demo_after 13 = (notebook_cells ! 12) demo_env (demo_state 12)"
    by (rule demo_after_step) (use demo_after_12 in simp_all)
  then have step: "demo_after 13 = cell_show_constraints demo_env (demo_state 12)"
    by (simp only: cells_nth)
  show ?thesis
    using demo_after_12
    by (simp add: demo_state_def [of 13] step demo_session_def cell_show_constraints_keeps)
      (simp add: cell_show_constraints_def demo_env_def)
qed

lemma demo_after_14: "is_Done (demo_after 14) \<and> demo_session (demo_state 14)"
proof -
  have "demo_after 14 = (notebook_cells ! 13) demo_env (demo_state 13)"
    by (rule demo_after_step) (use demo_after_13 in simp_all)
  then have step: "demo_after 14 = cell_create_schedule demo_env (demo_state 13)"
    by (simp only: cells_nth)
  show ?thesis
    using demo_after_13
    by (simp add: demo_state_def [of 14] step demo_session_def cell_create_schedule_keeps)
      (simp add: cell_create_schedule_def demo_env_def)
qed

subsection \<open>The two frames and the two files\<close>

text \<open>A new array in the store changes nothing of what the frames on the older arrays
  show.\<close>

lemma cell_of_append:
  assumes "case col of View a j \<Rightarrow> a < length h | Own cs \<Rightarrow> True"
  shows "cell_of (h @ h') col i = cell_of h col i"
  using assms by (cases col) (simp_all add: nth_append)

lemma contents_append:
  assumes "views_within (length h) df"
  shows "contents (h @ h') df = contents h df"
proof -
  have "map (\<lambda>(c, col). cell_of (h @ h') col i) (fr_columns df) =
        map (\<lambda>(c, col). cell_of h col i) (fr_columns df)" for i
    using assms by (auto simp: views_within_def list_all_iff cell_of_append)
  then show ?thesis
    by (simp add: contents_def)
qed

lemma DataFrame_views:
  assumes "DataFrame h X names = Inr d"
  shows "views_within (length h) d"
  using assms
  by (auto simp: DataFrame_def array_at_def views_within_def list_all_iff in_set_enumerate_eq
      split: if_splits)

lemma set_column_views:
  assumes "set_column d name vals = Inr d'" and "views_within n d"
  shows "views_within n d'"
  using assms
  by (fastforce simp: set_column_def views_within_def list_all_iff split: if_splits column.splits)

lemma DataFrame_append:
  assumes "X < length h"
  shows "DataFrame (h @ h') X names = DataFrame h X names"
  using assms by (simp add: DataFrame_def array_at_def nth_append)


lemma cell_make_normal_DoneD:
  assumes "cell_make_normal env st = Done s"
  shows "\<exists>d. DataFrame (arrays s) (length (arrays st)) feature_names = Inr d \<and>
     set_column d ''target'' (map Lbl (snd (make_classification env normal_args))) = Inr (df_normal s) \<and>
     X_normal s = Some (length (arrays st)) \<and>
     arrays s = arrays st @ [fst (make_classification env normal_args)] \<and>
     y_normal s = snd (make_classification env normal_args) \<and>
     files s = (files st)(''synthetic_normal_data.csv'' \<mapsto>
       to_csv env (contents (arrays s) (df_normal s)))"
  using assms by (auto simp: cell_make_normal_def Let_def split: sum.splits)

lemma cell_make_drifted_DoneD:
  assumes "cell_make_drifted env st = Done s"
  shows "\<exists>X d. X_normal st = Some X \<and> DataFrame (arrays s) X feature_names = Inr d \<and>
     set_column d ''target'' (map Lbl (y_normal st)) = Inr (df_drifted s) \<and>
     X_drifted s = Some (length (arrays st)) \<and>
     arrays s = arrays st @ [fst (make_classification env drifted_args)] \<and>
     y_drifted s = snd (make_classification env drifted_args) \<and>
     files s = (files st)(''synthetic_drifted_data.csv'' \<mapsto>
       to_csv env (contents (arrays s) (df_drifted s)))"
  using assms by (auto simp: cell_make_drifted_def Let_def split: sum.splits option.splits)

lemma run_cells_DoneD:
  assumes "run_cells env (c # cs) st = Done s"
  shows "\<exists>s1. c env st = Done s1 \<and> run_cells env cs s1 = Done s"
  using assms by (cases "c env st") simp_all

lemma drifted_built_from_normal:
  assumes run: "run_cells env [cell_make_normal, cell_show_normal, cell_send_normal,
                  cell_make_drifted] st = Done s"
  shows "df_drifted s = df_normal s \<and>
     (\<exists>X. X_normal s = Some X \<and>
        array_at (arrays s) X = Some (fst (make_classification env normal_args)) \<and>
        (\<exists>d. DataFrame (arrays s) X feature_names = Inr d \<and>
             set_column d ''target'' (map Lbl (y_normal s)) = Inr (df_drifted s))) \<and>
     y_normal s = snd (make_classification env normal_args) \<and>
     files s ''synthetic_normal_data.csv'' = Some (to_csv env (contents (arrays s) (df_normal s))) \<and>
     files s ''synthetic_drifted_data.csv'' = Some (to_csv env (contents (arrays s) (df_drifted s)))"
proof -
  from run_cells_DoneD [OF run] obtain s1 where c1: "cell_make_normal env st = Done s1"
    and r1: "run_cells env [cell_show_normal, cell_send_normal, cell_make_drifted] s1 = Done s"
    by blast
  from run_cells_DoneD [OF r1] obtain s2 where c2: "cell_show_normal env s1 = Done s2"
    and r2: "run_cells env [cell_send_normal, cell_make_drifted] s2 = Done s"
    by blast
  from run_cells_DoneD [OF r2] obtain s3 where c3: "cell_send_normal env s2 = Done s3"
    and r3: "run_cells env [cell_make_drifted] s3 = Done s"
    by blast
  from run_cells_DoneD [OF r3] have c4: "cell_make_drifted env s3 = Done s"
    by auto
  let ?X = "length (arrays st)"
  let ?A = "fst (make_classification env normal_args)"
  let ?B = "fst (make_classification env drifted_args)"
  from cell_make_normal_DoneD [OF c1] obtain d where
    d: "DataFrame (arrays s1) ?X feature_names = Inr d"
    and n: "set_column d ''target'' (map Lbl (snd (make_classification env normal_args))) =
              Inr (df_normal s1)"
    and X1: "X_normal s1 = Some ?X"
    and h1: "arrays s1 = arrays st @ [?A]"
    and y1: "y_normal s1 = snd (make_classification env normal_args)"
    and f1: "files s1 = (files st)(''synthetic_normal_data.csv'' \<mapsto>
               to_csv env (contents (arrays s1) (df_normal s1)))"
    by blast
  have k2: "X_normal s2 = X_normal s1" "y_normal s2 = y_normal s1" "df_normal s2 = df_normal s1"
    "files s2 = files s1" "arrays s2 = arrays s1"
    using cell_show_normal_keeps [of env s1] by (simp_all add: c2)
  have k3: "X_normal s3 = X_normal s2" "y_normal s3 = y_normal s2" "df_normal s3 = df_normal s2"
    "files s3 = files s2" "arrays s3 = arrays s2"
    using cell_send_normal_keeps [of env s2] by (simp_all add: c3)
  have k4: "X_normal s = X_normal s3" "y_normal s = y_normal s3" "df_normal s = df_normal s3"
    using cell_make_drifted_keeps [of env s3] by (simp_all add: c4)
  from cell_make_drifted_DoneD [OF c4] obtain X' d' where
    X': "X_normal s3 = Some X'"
    and d': "DataFrame (arrays s) X' feature_names = Inr d'"
    and n': "set_column d' ''target'' (map Lbl (y_normal s3)) = Inr (df_drifted s)"
    and h4: "arrays s = arrays s3 @ [?B]"
    and f4: "files s = (files s3)(''synthetic_drifted_data.csv'' \<mapsto>
               to_csv env (contents (arrays s) (df_drifted s)))"
    by blast
  have X: "X' = ?X"
    using X' by (simp add: k3 k2 X1)
  have h: "arrays s = arrays s1 @ [?B]"
    by (simp add: h4 k3 k2)
  have in1: "?X < length (arrays s1)"
    by (simp add: h1)
  have "DataFrame (arrays s) ?X feature_names = DataFrame (arrays s1) ?X feature_names"
    unfolding h by (rule DataFrame_append) (rule in1)
  with d d' have "d' = d"
    by (simp add: X)
  with n n' have same: "df_drifted s = df_normal s1"
    by (simp add: k3 k2 y1)
  have views: "views_within (length (arrays s1)) (df_normal s1)"
    using set_column_views [OF n DataFrame_views [OF d]] .
  have shown: "contents (arrays s) (df_normal s1) = contents (arrays s1) (df_normal s1)"
    unfolding h by (rule contents_append) (rule views)
  have "df_normal s = df_normal s1"
    by (simp add: k4 k3 k2)
  moreover have "X_normal s = Some ?X"
    "array_at (arrays s) ?X = Some ?A"
    "y_normal s = snd (make_classification env normal_args)"
    by (simp_all add: k4 k3 k2 X1 y1 h h1 array_at_def nth_append)
  moreover have "\<exists>d. DataFrame (arrays s) ?X feature_names = Inr d \<and>
          set_column d ''target'' (map Lbl (y_normal s)) = Inr (df_drifted s)"
    using d' n' by (simp add: k4 X)
  moreover have "files s ''synthetic_normal_data.csv'' =
      Some (to_csv env (contents (arrays s) (df_normal s1)))"
    by (simp add: f4 k3 k2 f1 shown)
  moreover have "files s ''synthetic_drifted_data.csv'' =
      Some (to_csv env (contents (arrays s) (df_drifted s)))"
    by (simp add: f4)
  ultimately show ?thesis
    using same by simp
qed

lemma demo_setup_Done: "cell_setup demo_env (init_nb 0) = Done (demo_state 1)"
proof -
  have "demo_after 1 = run_cells demo_env [cell_setup] (init_nb 0)"
    by (simp add: demo_after_def notebook_cells_def)
  with demo_after_1 show ?thesis
    by (cases "cell_setup demo_env (init_nb 0)") (simp_all add: demo_state_def)
qed

lemma demo_run_to_drifted:
  "run_cells demo_env [cell_make_normal, cell_show_normal, cell_send_normal, cell_make_drifted]
     (demo_state 1) = Done (demo_state 5)"
proof -
  have t5: "take 5 notebook_cells =
      [cell_setup, cell_make_normal, cell_show_normal, cell_send_normal, cell_make_drifted]"
    by (simp add: notebook_cells_def)
  have "demo_after 5 = run_cells demo_env [cell_make_normal, cell_show_normal,
      cell_send_normal, cell_make_drifted] (demo_state 1)"
    unfolding demo_after_def t5 by (simp only: run_cells.simps demo_setup_Done outcome.case)
  with demo_after_5 Done_final [of "demo_after 5"] show ?thesis
    by (simp add: demo_state_def)
qed

lemma demo_cell_3_1: "df_rows demo_frame ! 3 ! 0 = Flt (Fin 42030)"
  by (simp add: demo_frame_def labelled_def demo_make_classification_def normal_args_def
      nth_append)

lemma demo_X_differ:
  "fst (demo_make_classification drifted_args) \<noteq> fst (demo_make_classification normal_args)"
proof
  assume "fst (demo_make_classification drifted_args) = fst (demo_make_classification normal_args)"
  then have "fst (demo_make_classification drifted_args) ! 0 ! 0 =
      fst (demo_make_classification normal_args) ! 0 ! 0"
    by simp
  then show False
    by (simp add: demo_make_classification_def normal_args_def drifted_args_def)
qed

subsection \<open>The trace of the loop\<close>

lemma exchanges_projections:
  "request_bodies (concat (map (exchange env ep) ps)) = map (\<lambda>(r, b, x). payload_of env r) ps"
  "responses (concat (map (exchange env ep) ps)) = map (\<lambda>(r, b, x). Inr b) ps"
  "printed (concat (map (exchange env ep) ps)) = map (\<lambda>(r, b, x). str_float env x) ps"
  by (induction ps) (auto simp: exchange_def)

lemma send_rows_trace:
  assumes "send_rows env st rows = Done s"
  shows "\<exists>answers. length answers = length rows \<and>
     list_all (\<lambda>(b, x). float_of_str env b = Inr x) answers \<and>
     events s = events st @ concat (map (exchange env (endpoint_name st)) (zip rows answers))"
  using assms
proof (induction rows arbitrary: st)
  case Nil
  then show ?case by simp
next
  case (Cons row rest)
  let ?ep = "endpoint_name st"
  obtain w' resp where call:
    "invoke_endpoint env (world st) ?ep ''text/csv'' (payload_of env row) = (w', resp)"
    by (cases "invoke_endpoint env (world st) ?ep ''text/csv'' (payload_of env row)")
  from Cons.prems call obtain b where resp: "resp = Inr b"
    by (cases resp) simp_all
  from Cons.prems call resp obtain x where parse: "float_of_str env b = Inr x"
    by (cases "float_of_str env b") simp_all
  let ?st2 = "emit (Print (str_float env x))
     (emit (InvokeEndpoint ?ep ''text/csv'' (payload_of env row) (Inr b)) (st\<lparr>world := w'\<rparr>))"
  from Cons.prems call resp parse have rest: "send_rows env ?st2 rest = Done s"
    by simp
  from Cons.IH [OF rest] obtain answers where
    len: "length answers = length rest"
    and ok: "list_all (\<lambda>(b, x). float_of_str env b = Inr x) answers"
    and ev: "events s = events ?st2 @ concat (map (exchange env (endpoint_name ?st2)) (zip rest answers))"
    by blast
  have "events s = events st @
      concat (map (exchange env ?ep) (zip (row # rest) ((b, x) # answers)))"
    using ev by (simp add: emit_def exchange_def)
  with len ok parse show ?case
    by (intro exI [of _ "(b, x) # answers"]) simp
qed

lemma send_rows_requests:
  "\<exists>new. events (final (send_rows env st rows)) = events st @ new \<and>
     prefix (request_bodies new) (map (payload_of env) rows)"
proof (induction rows arbitrary: st)
  case Nil
  show ?case by simp
next
  case (Cons row rest)
  let ?ep = "endpoint_name st"
  obtain w' resp where call:
    "invoke_endpoint env (world st) ?ep ''text/csv'' (payload_of env row) = (w', resp)"
    by (cases "invoke_endpoint env (world st) ?ep ''text/csv'' (payload_of env row)")
  let ?call = "InvokeEndpoint ?ep ''text/csv'' (payload_of env row) resp"
  let ?st1 = "emit ?call (st\<lparr>world := w'\<rparr>)"
  show ?case
  proof (cases "printed_score env resp")
    case None
    then have "final (send_rows env st (row # rest)) = ?st1"
      using call by (auto simp: printed_score_def split: sum.splits)
    then show ?thesis
      by (intro exI [of _ "[?call]"]) (simp add: emit_def)
  next
    case (Some shown)
    then obtain b x where resp: "resp = Inr b" and parse: "float_of_str env b = Inr x"
      by (auto simp: printed_score_def split: sum.splits)
    let ?st2 = "emit (Print (str_float env x)) ?st1"
    have run: "send_rows env st (row # rest) = send_rows env ?st2 rest"
      using call resp parse by simp
    from Cons.IH [of ?st2] obtain new where
      ev: "events (final (send_rows env ?st2 rest)) = events ?st2 @ new"
      and pre: "prefix (request_bodies new) (map (payload_of env) rest)"
      by blast
    show ?thesis
      using ev pre unfolding run
      by (intro exI [of _ "?call # Print (str_float env x) # new"]) (simp add: emit_def)
  qed
qed

lemma send_frame_requests:
  "case drop_column (arrays st) df ''target'' of
     Inl e \<Rightarrow> new_events st (final (send_frame env df st)) = []
   | Inr d \<Rightarrow> prefix (request_bodies (new_events st (final (send_frame env df st))))
              (map (payload_of env) (df_values env (arrays st) d))"
proof (cases "drop_column (arrays st) df ''target''")
  case (Inl e)
  then show ?thesis
    by (simp add: send_frame_def new_events_def)
next
  case (Inr d)
  from send_rows_requests [of env "st\<lparr>inference_data := df_values env (arrays st) d\<rparr>"
      "df_values env (arrays st) d"]
  show ?thesis
    using Inr by (auto simp: send_frame_def new_events_def)
qed

lemma length_contents: "length (df_rows (contents h df)) = fr_index df"
  by (simp add: contents_def)

lemma send_frame_row_by_row:
  assumes "send_frame env df st = Done s"
  shows "row_by_row env (contents (arrays st) df) st s"
proof -
  let ?h = "arrays st"
  from assms obtain d where d: "drop_column ?h df ''target'' = Inr d"
    and run: "send_rows env (st\<lparr>inference_data := df_values env ?h d\<rparr>) (df_values env ?h d) = Done s"
    by (auto simp: send_frame_def split: sum.splits)
  have inf: "inference_data s = df_values env ?h d"
    using send_rows_keeps [of env "st\<lparr>inference_data := df_values env ?h d\<rparr>" "df_values env ?h d"]
    by (simp add: run)
  from d have len: "length (df_values env ?h d) = length (df_rows (contents ?h df))"
    by (auto simp: drop_column_def df_values_def length_contents split: if_splits)
  from send_rows_trace [OF run] obtain answers where
    "length answers = length (df_values env ?h d)"
    "list_all (\<lambda>(b, x). float_of_str env b = Inr x) answers"
    "events s = events st @
       concat (map (exchange env (endpoint_name st)) (zip (df_values env ?h d) answers))"
    by auto
  then show ?thesis
    unfolding row_by_row_def inf len new_events_def
    by (intro conjI exI [of _ answers]) simp_all
qed

subsection \<open>The payload of a row\<close>

lemma join_comma: "join '','' xs = comma_separated xs"
  by (induction "'',''" xs rule: join.induct) simp_all

lemma map_rows_zip:
  "length xs = length ys \<Longrightarrow> map (\<lambda>(r, b, x). f r) (zip xs ys) = map f xs"
  by (induction xs ys rule: list_induct2) auto

lemma without_target:
  assumes "length r = 11"
  shows "without ''target'' (feature_names @ [''target'']) r = butlast r"
proof -
  from assms obtain xs x where r: "r = xs @ [x]" and xs: "length xs = 10"
    by (cases r rule: rev_cases) simp_all
  have keep: "filter (\<lambda>(c, x). c \<noteq> ''target'') (zip feature_names xs) = zip feature_names xs"
    using target_not_feature by (auto simp: filter_id_conv dest: set_zip_leftD)
  show ?thesis
    using xs by (simp add: without_def r length_feature_names keep)
qed

text \<open>What the frame without a column shows: the rows without the cells of the column.\<close>

lemma without_columns:
  "without name (map fst cols) (map g cols) = map g (filter (\<lambda>(c, col). c \<noteq> name) cols)"
  by (induction cols) (auto simp: without_def)

lemma drop_column_rows:
  assumes "drop_column h df name = Inr d"
  shows "df_rows (contents h' d) =
         map (without name (df_columns (contents h df))) (df_rows (contents h df))"
proof -
  let ?n = "fr_index df"
  let ?keep = "filter (\<lambda>(c, col). c \<noteq> name) (fr_columns df)"
  from assms have d: "d = df\<lparr>fr_columns :=
      map (\<lambda>(c, col). (c, Own (map (cell_of h col) [0..<?n]))) ?keep\<rparr>"
    by (auto simp: drop_column_def split: if_splits)
  have "map (\<lambda>(c, col). cell_of h' col i)
          (map (\<lambda>(c, col). (c, Own (map (cell_of h col) [0..<?n]))) ?keep) =
        without name (map fst (fr_columns df)) (map (\<lambda>(c, col). cell_of h col i) (fr_columns df))"
    if "i < ?n" for i
    unfolding without_columns using that by (auto simp: comp_def)
  then show ?thesis
    by (simp add: contents_def d)
qed

lemma drop_target_values:
  assumes "df_columns (contents h df) = feature_names @ [''target'']"
    and "list_all (\<lambda>r. length r = 11) (df_rows (contents h df))"
  shows "\<exists>d. drop_column h df ''target'' = Inr d \<and>
     df_values env h d = map (\<lambda>r. map (to_float env) (butlast r)) (df_rows (contents h df))"
proof -
  from assms(1) have "''target'' \<in> set (map fst (fr_columns df))"
    by (simp add: contents_def)
  then obtain d where d: "drop_column h df ''target'' = Inr d"
    by (simp add: drop_column_def)
  have "df_rows (contents h d) =
      map (without ''target'' (feature_names @ [''target''])) (df_rows (contents h df))"
    using drop_column_rows [OF d, of h] by (simp add: assms(1))
  also have "\<dots> = map butlast (df_rows (contents h df))"
    using assms(2) by (auto simp: list_all_iff without_target)
  finally show ?thesis
    using d by (simp add: df_values_def comp_def)
qed

lemma send_frame_csv_exchange:
  assumes cols: "df_columns (contents (arrays st) df) = feature_names @ [''target'']"
    and rows: "list_all (\<lambda>r. length r = 11) (df_rows (contents (arrays st) df))"
    and run: "send_frame env df st = Done s"
  shows "csv_exchange env (contents (arrays st) df) st s"
proof -
  let ?h = "arrays st"
  let ?T = "contents ?h df"
  from drop_target_values [OF cols rows, of env] obtain d where
    d: "drop_column ?h df ''target'' = Inr d"
    and vals: "df_values env ?h d = map (\<lambda>r. map (to_float env) (butlast r)) (df_rows ?T)"
    by blast
  from send_frame_row_by_row [OF run] obtain answers where
    inf: "length (inference_data s) = length (df_rows ?T)"
    and len: "length answers = length (df_rows ?T)"
    and ok: "list_all (\<lambda>(b, x). float_of_str env b = Inr x) answers"
    and new: "new_events st s =
       concat (map (exchange env (endpoint_name st)) (zip (inference_data s) answers))"
    by (auto simp: row_by_row_def)
  have data: "inference_data s = df_values env ?h d"
    using run d send_rows_keeps [of env "st\<lparr>inference_data := df_values env ?h d\<rparr>"
        "df_values env ?h d"]
    by (simp add: send_frame_def)
  have fst_zip: "map (\<lambda>(r, b, x). payload_of env r) (zip (inference_data s) answers) =
      map (payload_of env) (inference_data s)"
    using inf len by (intro map_rows_zip) simp
  have "request_bodies (new_events st s) = map (payload_of env) (inference_data s)"
    unfolding new exchanges_projections by (rule fst_zip)
  also have "\<dots> =
      map (\<lambda>r. comma_separated (map (\<lambda>c. str_float env (to_float env c)) (butlast r))) (df_rows ?T)"
    unfolding data vals by (simp add: payload_of_def join_comma comp_def)
  finally have bodies: "request_bodies (new_events st s) =
      map (\<lambda>r. comma_separated (map (\<lambda>c. str_float env (to_float env c)) (butlast r))) (df_rows ?T)" .
  have scores: "printed_score env (Inr b) = Some (str_float env x)"
    if "(b, x) \<in> set answers" for b x
    using ok that by (auto simp: list_all_iff printed_score_def)
  have "map Some (printed (new_events st s)) = map (printed_score env) (responses (new_events st s))"
    unfolding new exchanges_projections
    by (auto simp: scores dest: set_zip_rightD)
  moreover have "length (responses (new_events st s)) = length (df_rows ?T)"
    unfolding new exchanges_projections using inf len by simp
  ultimately show ?thesis
    using bodies by (simp add: csv_exchange_def)
qed

lemma demo_cell_Done:
  assumes "is_Done (demo_after k)" and "is_Done (demo_after k')" and "k < 14" and "k' = Suc k"
  shows "(notebook_cells ! k) demo_env (demo_state k) = Done (demo_state k')"
  using demo_after_step [OF assms(1,3,4)] Done_final [OF assms(2)]
  by (simp add: demo_state_def)

lemma demo_send_normal: "cell_send_normal demo_env (demo_state 3) = Done (demo_state 4)"
  by (rule demo_cell_Done [of 3 4, unfolded cells_nth]) (use demo_after_3 demo_after_4 in simp_all)

lemma demo_send_drifted: "cell_send_drifted demo_env (demo_state 7) = Done (demo_state 8)"
  by (rule demo_cell_Done [of 7 8, unfolded cells_nth]) (use demo_after_7 demo_after_8 in simp_all)

lemma tabular_sample_shape:
  assumes "tabular_sample df"
  shows "df_columns df = feature_names @ [''target'']" and "list_all (\<lambda>r. length r = 11) (df_rows df)"
  using assms by (auto simp: tabular_sample_def sample_row_def list_all_iff)

subsection \<open>Exceptions\<close>




subsection \<open>The schedule-creation call\<close>

lemma schedule_calls_append:
  "schedule_calls (es @ fs) = schedule_calls es @ schedule_calls fs"
  by (induction es rule: schedule_calls.induct) simp_all

lemma send_rows_no_schedule:
  "schedule_calls (events (final (send_rows env st rows))) = schedule_calls (events st)"
proof (induction rows arbitrary: st)
  case Nil
  show ?case by simp
next
  case (Cons row rest)
  obtain w' resp where call:
    "invoke_endpoint env (world st) (endpoint_name st) ''text/csv'' (payload_of env row) = (w', resp)"
    by (cases "invoke_endpoint env (world st) (endpoint_name st) ''text/csv'' (payload_of env row)")
  show ?case
  proof (cases "printed_score env resp")
    case None
    then show ?thesis
      using call by (auto simp: printed_score_def emit_def schedule_calls_append split: sum.splits)
  next
    case (Some shown)
    then obtain b x where resp: "resp = Inr b" and parse: "float_of_str env b = Inr x"
      by (auto simp: printed_score_def split: sum.splits)
    show ?thesis
      using call resp parse
        Cons.IH [of "emit (Print (str_float env x))
          (emit (InvokeEndpoint (endpoint_name st) ''text/csv'' (payload_of env row) (Inr b))
             (st\<lparr>world := w'\<rparr>))"]
      by (simp add: emit_def schedule_calls_append)
  qed
qed

lemma send_frame_no_schedule:
  "schedule_calls (events (final (send_frame env df st))) = schedule_calls (events st)"
  using send_rows_no_schedule [of env "st\<lparr>inference_data := df_values env (arrays st) d\<rparr>"
      "df_values env (arrays st) d" for d]
  by (auto simp: send_frame_def split: sum.splits)

lemma cells_no_schedule:
  "schedule_calls (events (final (cell_setup env st))) = schedule_calls (events st)"
  "schedule_calls (events (final (cell_make_normal env st))) = schedule_calls (events st)"
  "schedule_calls (events (final (cell_show_normal env st))) = schedule_calls (events st)"
  "schedule_calls (events (final (cell_send_normal env st))) = schedule_calls (events st)"
  "schedule_calls (events (final (cell_make_drifted env st))) = schedule_calls (events st)"
  "schedule_calls (events (final (cell_show_drifted env st))) = schedule_calls (events st)"
  "schedule_calls (events (final (cell_inject env st))) = schedule_calls (events st)"
  "schedule_calls (events (final (cell_send_drifted env st))) = schedule_calls (events st)"
  "schedule_calls (events (final (cell_describe env st))) = schedule_calls (events st)"
  "schedule_calls (events (final (cell_baseline_uris env st))) = schedule_calls (events st)"
  "schedule_calls (events (final (cell_read_baseline env st))) = schedule_calls (events st)"
  "schedule_calls (events (final (cell_show_statistics env st))) = schedule_calls (events st)"
  "schedule_calls (events (final (cell_show_constraints env st))) = schedule_calls (events st)"
  by (auto simp: cell_setup_def cell_make_normal_def cell_show_normal_def cell_send_normal_def cell_make_drifted_def cell_show_drifted_def cell_inject_def cell_send_drifted_def cell_describe_def cell_baseline_uris_def cell_read_baseline_def cell_show_statistics_def cell_show_constraints_def
      send_frame_no_schedule emit_def Let_def schedule_calls_append requested_def s3_object_get_def
      split: sum.splits prod.splits option.splits)

lemma run_cells_append_DoneD:
  assumes "run_cells env (cs @ ds) st = Done s"
  shows "\<exists>m. run_cells env cs st = Done m \<and> run_cells env ds m = Done s"
  using assms by (cases "run_cells env cs st") (simp_all add: run_cells_append)

lemma cell_setup_DoneD:
  assumes "cell_setup env st = Done s"
  shows "endpoint_name s = ''lab-sagemaker-endpoint'' \<and> events s = events st @ [ListBuckets] \<and>
     (\<exists>names. list_buckets env (world st) = Inr names \<and>
        bucket s = find (prefix ''lab-sagemaker-'') names)"
  using assms by (auto simp: cell_setup_def emit_def split: sum.splits)

lemma cell_baseline_uris_DoneD:
  assumes "cell_baseline_uris env st = Done s"
  shows "baseline_statistics s = s3_uri (bucket st) statistics_key \<and>
     baseline_constraints s = s3_uri (bucket st) constraints_key"
  using assms by (auto simp: cell_baseline_uris_def)

lemma cell_create_schedule_DoneD:
  assumes "cell_create_schedule env st = Done s"
  shows "events s = events st @ [CreateMonitoringSchedule (the_monitor st) (schedule_kwargs env st)] \<and>
     world s = fst (create_monitoring_schedule env (world st) (the_monitor st) (schedule_kwargs env st))"
  using assms
  by (cases "create_monitoring_schedule env (world st) (the_monitor st) (schedule_kwargs env st)")
    (auto simp: cell_create_schedule_def emit_def Let_def split: sum.splits)

lemma run_cells_invariant:
  assumes "\<And>c s. c \<in> set cs \<Longrightarrow> P s \<Longrightarrow> P (final (c env s))" and "P st"
  shows "P (final (run_cells env cs st))"
  using assms
proof (induction cs arbitrary: st)
  case Nil
  then show ?case by simp
next
  case (Cons c cs)
  have step: "P (final (c env st))"
    using Cons.prems by simp
  show ?case
  proof (cases "c env st")
    case (Done s)
    with step have "P s" by simp
    then have "P (final (run_cells env cs s))"
      using Cons.prems(1) by (intro Cons.IH) simp_all
    with Done show ?thesis by simp
  next
    case (Raised e s)
    with step show ?thesis by simp
  qed
qed

lemma cell_make_normal_files:
  "dom (files (final (cell_make_normal env st))) \<subseteq>
     insert ''synthetic_normal_data.csv'' (dom (files st))"
  by (auto simp: cell_make_normal_def Let_def split: sum.splits if_splits)

lemma cell_make_drifted_files:
  "dom (files (final (cell_make_drifted env st))) \<subseteq>
     insert ''synthetic_drifted_data.csv'' (dom (files st))"
  by (auto simp: cell_make_drifted_def Let_def split: sum.splits if_splits option.splits)

lemma notebook_files:
  "dom (files (final (notebook env w))) \<subseteq>
     {''synthetic_normal_data.csv'', ''synthetic_drifted_data.csv''}"
  unfolding notebook_def
proof (rule run_cells_invariant)
  show "dom (files (init_nb w)) \<subseteq> {''synthetic_normal_data.csv'', ''synthetic_drifted_data.csv''}"
    by (simp add: init_nb_def)
next
  fix c :: "('a, 'b) cell_fn" and s :: "('a, 'b) nb"
  assume c: "c \<in> set notebook_cells"
    and s: "dom (files s) \<subseteq> {''synthetic_normal_data.csv'', ''synthetic_drifted_data.csv''}"
  from c consider "files (final (c env s)) = files s" | "c = cell_make_normal" | "c = cell_make_drifted"
    by (auto simp: notebook_cells_def cell_setup_keeps cell_show_normal_keeps
        cell_send_normal_keeps cell_show_drifted_keeps cell_inject_keeps cell_send_drifted_keeps
        cell_describe_keeps cell_baseline_uris_keeps cell_read_baseline_keeps
        cell_show_statistics_keeps cell_show_constraints_keeps cell_create_schedule_keeps)
  then show "dom (files (final (c env s))) \<subseteq>
      {''synthetic_normal_data.csv'', ''synthetic_drifted_data.csv''}"
  proof cases
    case 1
    with s show ?thesis by simp
  next
    case 2
    with s cell_make_normal_files [of env s] show ?thesis by blast
  next
    case 3
    with s cell_make_drifted_files [of env s] show ?thesis by blast
  qed
qed

lemma demo_run_between:
  assumes "is_Done (demo_after j)" and "is_Done (demo_after k)" and "j \<le> k"
  shows "run_cells demo_env (drop j (take k notebook_cells)) (demo_state j) = Done (demo_state k)"
proof -
  have "take j (take k notebook_cells) @ drop j (take k notebook_cells) = take k notebook_cells"
    by (rule append_take_drop_id)
  moreover have "take j (take k notebook_cells) = take j notebook_cells"
    using assms(3) by (simp add: min_absorb1)
  ultimately have "take k notebook_cells = take j notebook_cells @ drop j (take k notebook_cells)"
    by metis
  then have "demo_after k =
      (case demo_after j of
         Done s \<Rightarrow> run_cells demo_env (drop j (take k notebook_cells)) s
       | Raised e s \<Rightarrow> Raised e s)"
    unfolding demo_after_def using run_cells_append by metis
  with assms(1) have "demo_after k =
      run_cells demo_env (drop j (take k notebook_cells)) (demo_state j)"
    by (cases "demo_after j") (simp_all add: demo_state_def)
  with Done_final [OF assms(2)] show ?thesis
    by (simp add: demo_state_def)
qed

lemma demo_run_baseline:
  "run_cells demo_env [cell_baseline_uris, cell_read_baseline, cell_show_statistics,
     cell_show_constraints, cell_create_schedule] (demo_state 9) = Done (demo_state 14)"
proof -
  have "drop 9 (take 14 (notebook_cells :: (dfloat, nat) cell_fn list)) = [cell_baseline_uris, cell_read_baseline,
      cell_show_statistics, cell_show_constraints, cell_create_schedule]"
    by (simp add: notebook_cells_def)
  moreover have "run_cells demo_env (drop 9 (take 14 notebook_cells)) (demo_state 9) =
      Done (demo_state 14)"
    by (rule demo_run_between) (use demo_after_9 demo_after_14 in simp_all)
  ultimately show ?thesis
    by (simp only:)
qed

lemma demo_notebook: "notebook demo_env 0 = Done (demo_state 14)"
  using Done_final [of "demo_after 14"] demo_after_14
  by (simp add: demo_after_def demo_state_def notebook_def length_notebook_cells)

text \<open>What the schedule-creation call of a completed notebook was given.\<close>

lemma notebook_schedule_call:
  assumes run: "notebook env w = Done s"
  shows "schedule_calls (events s) =
     [(\<lparr>m_role = role s, instance_count = 1, instance_type = ''ml.m5.large'',
        volume_size_in_gb = 20, max_runtime_in_seconds = 3600\<rparr>,
       [(''endpoint_input'', Str ''lab-sagemaker-endpoint''),
        (''output_s3_uri'', Str (s3_uri (bucket s) ''monitoring_output'')),
        (''statistics'', Str (s3_uri (bucket s) statistics_key)),
        (''constraints'', Str (s3_uri (bucket s) constraints_key)),
        (''schedule_cron_expression'', Str (cron_daily env)),
        (''enable_cloudwatch_metrics'', Flag True)])] \<and>
     (\<exists>names. list_buckets env w = Inr names \<and> bucket s = find (prefix ''lab-sagemaker-'') names)"
proof -
  let ?mid = "[cell_make_normal, cell_show_normal, cell_send_normal, cell_make_drifted,
      cell_show_drifted, cell_inject, cell_send_drifted, cell_describe] :: ('a, 'b) cell_fn list"
  let ?late = "[cell_read_baseline, cell_show_statistics, cell_show_constraints] :: ('a, 'b) cell_fn list"
  have cells: "notebook_cells = [cell_setup] @ ?mid @ [cell_baseline_uris] @ ?late @ [cell_create_schedule]"
    by (simp add: notebook_cells_def)
  from run have all: "run_cells env ([cell_setup] @ ?mid @ [cell_baseline_uris] @ ?late @
      [cell_create_schedule]) (init_nb w) = Done s"
    unfolding notebook_def cells .
  from run_cells_append_DoneD [OF all] obtain sA where
    a: "run_cells env [cell_setup] (init_nb w) = Done sA"
    and ra: "run_cells env (?mid @ [cell_baseline_uris] @ ?late @ [cell_create_schedule]) sA = Done s"
    by blast
  from run_cells_append_DoneD [OF ra] obtain sB where
    b: "run_cells env ?mid sA = Done sB"
    and rb: "run_cells env ([cell_baseline_uris] @ ?late @ [cell_create_schedule]) sB = Done s"
    by blast
  from run_cells_append_DoneD [OF rb] obtain sC where
    c: "run_cells env [cell_baseline_uris] sB = Done sC"
    and rc: "run_cells env (?late @ [cell_create_schedule]) sC = Done s"
    by blast
  from run_cells_append_DoneD [OF rc] obtain sD where
    d: "run_cells env ?late sC = Done sD"
    and rd: "run_cells env [cell_create_schedule] sD = Done s"
    by blast
  from run_cells_DoneD [OF a] have a': "cell_setup env (init_nb w) = Done sA" by auto
  from run_cells_DoneD [OF c] have c': "cell_baseline_uris env sB = Done sC" by auto
  from run_cells_DoneD [OF rd] have d': "cell_create_schedule env sD = Done s" by auto
  from cell_setup_DoneD [OF a'] obtain names where
    epA: "endpoint_name sA = ''lab-sagemaker-endpoint''"
    and evA: "events sA = [ListBuckets]"
    and names: "list_buckets env w = Inr names"
    and bA: "bucket sA = find (prefix ''lab-sagemaker-'') names"
    by (auto simp: init_nb_def)
  have keepB: "f sB = f sA"
    if "\<And>c s. c \<in> set ?mid \<Longrightarrow> f (final (c env s)) = f s" for f :: "('a, 'b) nb \<Rightarrow> 'c"
  proof -
    have "f (final (run_cells env ?mid sA)) = f sA"
      by (rule run_cells_keeps) (rule that)
    then show ?thesis unfolding b by simp
  qed
  have epB: "endpoint_name sB = endpoint_name sA" and bB: "bucket sB = bucket sA"
    and rB: "role sB = role sA"
    by (rule keepB; auto simp: cell_make_normal_keeps cell_show_normal_keeps
        cell_send_normal_keeps cell_make_drifted_keeps cell_show_drifted_keeps cell_inject_keeps
        cell_send_drifted_keeps cell_describe_keeps)+
  have qB: "schedule_calls (events sB) = schedule_calls (events sA)"
    by (rule keepB) (auto simp: cells_no_schedule)
  from cell_baseline_uris_DoneD [OF c'] cell_baseline_uris_keeps [of env sB] c'
  have C: "baseline_statistics sC = s3_uri (bucket sB) statistics_key"
    "baseline_constraints sC = s3_uri (bucket sB) constraints_key"
    "endpoint_name sC = endpoint_name sB" "bucket sC = bucket sB" "role sC = role sB"
    "events sC = events sB"
    by simp_all
  have keepD: "f sD = f sC"
    if "\<And>c s. c \<in> set ?late \<Longrightarrow> f (final (c env s)) = f s" for f :: "('a, 'b) nb \<Rightarrow> 'c"
  proof -
    have "f (final (run_cells env ?late sC)) = f sC"
      by (rule run_cells_keeps) (rule that)
    then show ?thesis unfolding d by simp
  qed
  have D: "endpoint_name sD = endpoint_name sC" "bucket sD = bucket sC" "role sD = role sC"
    "baseline_statistics sD = baseline_statistics sC"
    "baseline_constraints sD = baseline_constraints sC"
    by (rule keepD; auto simp: cell_read_baseline_keeps cell_show_statistics_keeps
        cell_show_constraints_keeps)+
  have qD: "schedule_calls (events sD) = schedule_calls (events sC)"
    by (rule keepD) (auto simp: cells_no_schedule)
  from cell_create_schedule_DoneD [OF d'] cell_create_schedule_keeps [of env sD] d'
  have S: "events s = events sD @ [CreateMonitoringSchedule (the_monitor sD) (schedule_kwargs env sD)]"
    "role s = role sD" "bucket s = bucket sD"
    by simp_all
  have "schedule_calls (events s) = [(the_monitor sD, schedule_kwargs env sD)]"
    by (simp add: S schedule_calls_append qD C qB evA)
  moreover have "the_monitor sD = \<lparr>m_role = role s, instance_count = 1,
      instance_type = ''ml.m5.large'', volume_size_in_gb = 20, max_runtime_in_seconds = 3600\<rparr>"
    by (simp add: the_monitor_def S)
  moreover have "schedule_kwargs env sD =
       [(''endpoint_input'', Str ''lab-sagemaker-endpoint''),
        (''output_s3_uri'', Str (s3_uri (bucket s) ''monitoring_output'')),
        (''statistics'', Str (s3_uri (bucket s) statistics_key)),
        (''constraints'', Str (s3_uri (bucket s) constraints_key)),
        (''schedule_cron_expression'', Str (cron_daily env)),
        (''enable_cloudwatch_metrics'', Flag True)]"
    by (simp add: schedule_kwargs_def S D C epB epA)
  moreover have "bucket s = find (prefix ''lab-sagemaker-'') names"
    by (simp add: S D C bB bA)
  ultimately show ?thesis
    using names by simp
qed

text \<open>Without a bucket the baseline files cannot be read: the notebook never completes.\<close>

lemma cell_read_baseline_no_bucket:
  assumes "bucket st = None"
  shows "cell_read_baseline env st =
         Raised (ValueError ''Required parameter bucket_name not set'') st"
  using assms by (simp add: cell_read_baseline_def s3_object_get_def requested_def)


text \<open>The cells from the baseline locations to the schedule creation.\<close>

lemma baseline_cells_trace:
  assumes "run_cells env [cell_baseline_uris, cell_read_baseline, cell_show_statistics,
             cell_show_constraints, cell_create_schedule] st = Done s"
  shows "\<exists>c1 c2 d1 d2.
     s3_object_get env (world st) (bucket st) statistics_key = Inr c1 \<and>
     s3_object_get env (world st) (bucket st) constraints_key = Inr c2 \<and>
     json_loads env c1 = Inr d1 \<and> json_loads env c2 = Inr d2 \<and>
     statistics_content s = c1 \<and> constraints_content s = c2 \<and>
     events s = events st @
       [GetObject (bucket st) statistics_key, GetObject (bucket st) constraints_key,
        DisplayJSON d1, DisplayJSON d2,
        CreateMonitoringSchedule (the_monitor st)
          [(''endpoint_input'', Str (endpoint_name st)),
           (''output_s3_uri'', Str (s3_uri (bucket st) ''monitoring_output'')),
           (''statistics'', Str (s3_uri (bucket st) statistics_key)),
           (''constraints'', Str (s3_uri (bucket st) constraints_key)),
           (''schedule_cron_expression'', Str (cron_daily env)),
           (''enable_cloudwatch_metrics'', Flag True)]] \<and>
     files s = files st \<and>
     world s = fst (create_monitoring_schedule env (world st) (the_monitor st)
          [(''endpoint_input'', Str (endpoint_name st)),
           (''output_s3_uri'', Str (s3_uri (bucket st) ''monitoring_output'')),
           (''statistics'', Str (s3_uri (bucket st) statistics_key)),
           (''constraints'', Str (s3_uri (bucket st) constraints_key)),
           (''schedule_cron_expression'', Str (cron_daily env)),
           (''enable_cloudwatch_metrics'', Flag True)])"
proof -
  from run_cells_DoneD [OF assms] obtain s1 where c1: "cell_baseline_uris env st = Done s1"
    and r1: "run_cells env [cell_read_baseline, cell_show_statistics, cell_show_constraints,
               cell_create_schedule] s1 = Done s"
    by blast
  from run_cells_DoneD [OF r1] obtain s2 where c2: "cell_read_baseline env s1 = Done s2"
    and r2: "run_cells env [cell_show_statistics, cell_show_constraints, cell_create_schedule] s2 =
               Done s"
    by blast
  from run_cells_DoneD [OF r2] obtain s3 where c3: "cell_show_statistics env s2 = Done s3"
    and r3: "run_cells env [cell_show_constraints, cell_create_schedule] s3 = Done s"
    by blast
  from run_cells_DoneD [OF r3] obtain s4 where c4: "cell_show_constraints env s3 = Done s4"
    and r4: "run_cells env [cell_create_schedule] s4 = Done s"
    by blast
  from run_cells_DoneD [OF r4] have c5: "cell_create_schedule env s4 = Done s"
    by auto
  from c1 have s1: "s1 = st\<lparr>baseline_statistics := s3_uri (bucket st) statistics_key,
      baseline_constraints := s3_uri (bucket st) constraints_key\<rparr>"
    by (simp add: cell_baseline_uris_def)
  from c2 obtain b where b: "bucket st = Some b"
    using cell_read_baseline_no_bucket [of s1 env] by (cases "bucket st") (simp_all add: s1)
  from c2 obtain x1 x2 where
    g1: "s3_object_get env (world st) (bucket st) statistics_key = Inr x1"
    and g2: "s3_object_get env (world st) (bucket st) constraints_key = Inr x2"
    and s2: "s2 = s1\<lparr>events := events st @
        [GetObject (bucket st) statistics_key, GetObject (bucket st) constraints_key],
        statistics_content := x1, constraints_content := x2\<rparr>"
    by (auto simp: cell_read_baseline_def requested_def emit_def Let_def s1 b split: sum.splits)
  from c3 obtain d1 where j1: "json_loads env x1 = Inr d1"
    and s3: "s3 = s2\<lparr>events := events s2 @ [DisplayJSON d1]\<rparr>"
    by (auto simp: cell_show_statistics_def emit_def s2 split: sum.splits)
  from c4 obtain d2 where j2: "json_loads env x2 = Inr d2"
    and s4: "s4 = s3\<lparr>events := events s3 @ [DisplayJSON d2]\<rparr>"
    by (auto simp: cell_show_constraints_def emit_def s3 s2 split: sum.splits)
  from cell_create_schedule_DoneD [OF c5] cell_create_schedule_keeps [of env s4] c5
  have "events s = events s4 @ [CreateMonitoringSchedule (the_monitor s4) (schedule_kwargs env s4)]"
    and "world s = fst (create_monitoring_schedule env (world s4) (the_monitor s4)
           (schedule_kwargs env s4))"
    and "files s = files s4" and "statistics_content s = statistics_content s4"
    and "constraints_content s = constraints_content s4"
    by simp_all
  with g1 g2 j1 j2 show ?thesis
    by (simp add: s4 s3 s2 s1 schedule_kwargs_def the_monitor_def)
qed




subsection \<open>The tables of the stand-in run, cell by cell\<close>

lemma demo_X_cell:
  assumes "i < 20" and "j < 10"
  shows "fst (demo_make_classification normal_args) ! i ! j = Fin (int (42000 + i * 10 + j))"
  using assms by (simp add: demo_make_classification_def normal_args_def)

lemma demo_y_cell:
  assumes "i < 20"
  shows "snd (demo_make_classification normal_args) ! i = int (i mod 2)"
  using assms by (simp add: demo_make_classification_def normal_args_def)

text \<open>The generated table, row by row.\<close>

lemma demo_row:
  assumes "i < 20"
  shows "df_rows demo_frame ! i =
     map (\<lambda>j. if j < 10 then Flt (Fin (int (42000 + i * 10 + j))) else Lbl (int (i mod 2))) [0..<11]"
proof -
  let ?X = "fst (demo_make_classification normal_args)"
  let ?y = "snd (demo_make_classification normal_args)"
  have shape: "i < length ?X" "length ?y = length ?X" "length (?X ! i) = 10"
    using assms demo_shape by (simp_all add: list_all_length)
  have len: "length (df_rows demo_frame ! i) = 11"
    unfolding demo_frame_def using labelled_row_length [OF shape] by simp
  have cell: "df_rows demo_frame ! i ! j =
      (if j < 10 then Flt (Fin (int (42000 + i * 10 + j))) else Lbl (int (i mod 2)))"
    if "j < 11" for j
    unfolding demo_frame_def using labelled_cell [OF shape that] assms
    by (simp add: demo_X_cell demo_y_cell)
  show ?thesis
    using len cell by (intro nth_equalityI) simp_all
qed

text \<open>The array of \<open>X_normal\<close> after the defect cell, and the table that both frames show
  on it.\<close>

lemma demo_array_7:
  assumes "i < 20" and "j < 10"
  shows "arrays (demo_state 7) ! 0 ! i ! j =
     (if i \<in> {3, 17} \<and> j = 0 then NaN
      else if i \<in> {3, 8} \<and> j = 1 then Fin (int (42000 + i * 10 + j) * 10)
      else Fin (int (42000 + i * 10 + j)))"
proof -
  from cell_inject_cells [OF demo_frame_6 demo_samples] obtain A' where
    run: "cell_inject demo_env (demo_state 6) =
            Done (demo_state 6\<lparr>arrays := (arrays (demo_state 6))[0 := A']\<rparr>)"
    and cells: "\<And>i j. i < 20 \<Longrightarrow> j < 10 \<Longrightarrow> A' ! i ! j =
           (if i \<in> set (sample_rows demo_env 0 20 2) \<and> j = 0 then nan demo_env
            else if i \<in> set (sample_rows demo_env 1 20 2) \<and> j = 1
                 then fmul demo_env (arrays (demo_state 6) ! 0 ! i ! j) (float_of_int demo_env 10)
                 else arrays (demo_state 6) ! 0 ! i ! j)"
    by blast
  have h6: "arrays (demo_state 6) = [fst (demo_make_classification normal_args),
      fst (demo_make_classification drifted_args)]"
    using demo_after_6 by simp
  have "arrays (demo_state 7) ! 0 = A'"
    by (simp add: demo_inject_step run h6)
  moreover have "sample_rows demo_env 0 20 2 = [3, 17]" "sample_rows demo_env 1 20 2 = [3, 8]"
    "nan demo_env = NaN" "fmul demo_env = dfloat_mul" "float_of_int demo_env = Fin"
    by (simp_all add: demo_env_def)
  ultimately show ?thesis
    using cells [OF assms] assms by (simp add: h6 demo_X_cell)
qed

lemma demo_frame_7:
  "sample_frame (arrays (demo_state 7)) (df_drifted (demo_state 7)) 0
     (snd (demo_make_classification normal_args))"
  "sample_frame (arrays (demo_state 7)) (df_normal (demo_state 7)) 0
     (snd (demo_make_classification normal_args))"
  using demo_after_7 by (simp_all add: demo_data_def)

lemma demo_row_7:
  assumes "i < 20"
  shows "df_rows (contents (arrays (demo_state 7)) (df_drifted (demo_state 7))) ! i =
     map (\<lambda>j. if j < 10
               then Flt (if i \<in> {3, 17} \<and> j = 0 then NaN
                         else if i \<in> {3, 8} \<and> j = 1 then Fin (int (42000 + i * 10 + j) * 10)
                         else Fin (int (42000 + i * 10 + j)))
               else Lbl (int (i mod 2))) [0..<11]"
proof -
  let ?A = "arrays (demo_state 7) ! 0"
  let ?y = "snd (demo_make_classification normal_args)"
  let ?T = "contents (arrays (demo_state 7)) (df_drifted (demo_state 7))"
  from demo_frame_7(1) have shape: "i < length ?A" "length ?y = length ?A" "length (?A ! i) = 10"
    using assms by (simp_all add: sample_frame_def list_all_length)
  have rows: "df_rows ?T = labelled ?A ?y"
    using sample_frame_contents(1) [OF demo_frame_7(1)] by simp
  have len: "length (df_rows ?T ! i) = 11"
    unfolding rows by (rule labelled_row_length) (rule shape)+
  have cell: "df_rows ?T ! i ! j =
      (if j < 10
       then Flt (if i \<in> {3, 17} \<and> j = 0 then NaN
                 else if i \<in> {3, 8} \<and> j = 1 then Fin (int (42000 + i * 10 + j) * 10)
                 else Fin (int (42000 + i * 10 + j)))
       else Lbl (int (i mod 2)))"
    if "j < 11" for j
    unfolding rows using labelled_cell [OF shape that] assms demo_array_7 [OF assms, of j]
    by (simp add: demo_y_cell)
  show ?thesis
    using len cell by (intro nth_equalityI) simp_all
qed

lemma demo_row_0:
  "df_rows demo_frame ! 0 =
     [Flt (Fin 42000), Flt (Fin 42001), Flt (Fin 42002), Flt (Fin 42003), Flt (Fin 42004),
      Flt (Fin 42005), Flt (Fin 42006), Flt (Fin 42007), Flt (Fin 42008), Flt (Fin 42009), Lbl 0]"
  using demo_row [of 0] by (simp add: upt_rec)

lemma demo_row_7_0:
  "df_rows (contents (arrays (demo_state 7)) (df_drifted (demo_state 7))) ! 0 =
     [Flt (Fin 42000), Flt (Fin 42001), Flt (Fin 42002), Flt (Fin 42003), Flt (Fin 42004),
      Flt (Fin 42005), Flt (Fin 42006), Flt (Fin 42007), Flt (Fin 42008), Flt (Fin 42009), Lbl 0]"
  using demo_row_7 [of 0] by (simp add: upt_rec)

lemma demo_row_7_3:
  "df_rows (contents (arrays (demo_state 7)) (df_drifted (demo_state 7))) ! 3 =
     [Flt NaN, Flt (Fin 420310), Flt (Fin 42032), Flt (Fin 42033), Flt (Fin 42034),
      Flt (Fin 42035), Flt (Fin 42036), Flt (Fin 42037), Flt (Fin 42038), Flt (Fin 42039), Lbl 1]"
  using demo_row_7 [of 3] by (simp add: upt_rec)

lemma demo_row_8:
  "df_rows demo_frame ! 8 =
     [Flt (Fin 42080), Flt (Fin 42081), Flt (Fin 42082), Flt (Fin 42083), Flt (Fin 42084),
      Flt (Fin 42085), Flt (Fin 42086), Flt (Fin 42087), Flt (Fin 42088), Flt (Fin 42089), Lbl 0]"
  using demo_row [of 8] by (simp add: upt_rec)

text \<open>The request bodies of the two loops on the stand-in services.\<close>

lemma demo_bodies_normal:
  "request_bodies (new_events (demo_state 3) (demo_state 4)) =
     map (\<lambda>r. comma_separated (map (\<lambda>c. str_float demo_env (to_float demo_env c)) (butlast r)))
         (df_rows demo_frame)"
proof -
  have n: "contents (arrays (demo_state 3)) (df_normal (demo_state 3)) = demo_frame"
    using demo_after_3 by (intro demo_contents) simp_all
  have "csv_exchange demo_env (contents (arrays (demo_state 3)) (df_normal (demo_state 3)))
      (demo_state 3) (demo_state 4)"
    using demo_send_normal tabular_sample_shape [OF demo_frame_tabular]
    by (intro send_frame_csv_exchange) (simp_all add: n cell_send_normal_def)
  then show ?thesis
    by (simp add: csv_exchange_def n)
qed

lemma demo_bodies_drifted:
  "request_bodies (new_events (demo_state 7) (demo_state 8)) =
     map (\<lambda>r. comma_separated (map (\<lambda>c. str_float demo_env (to_float demo_env c)) (butlast r)))
         (df_rows (contents (arrays (demo_state 7)) (df_drifted (demo_state 7))))"
proof -
  have "csv_exchange demo_env (contents (arrays (demo_state 7)) (df_drifted (demo_state 7)))
      (demo_state 7) (demo_state 8)"
    using demo_send_drifted
      tabular_sample_shape [OF sample_frame_contents(2) [OF demo_frame_7(1)]]
    by (intro send_frame_csv_exchange) (simp_all add: cell_send_drifted_def)
  then show ?thesis
    by (simp add: csv_exchange_def)
qed

lemma str_demo:
  "str_float demo_env = str_dfloat"
  by (simp add: demo_env_def)

lemma demo_body_normal_0:
  "request_bodies (new_events (demo_state 3) (demo_state 4)) ! 0 =
     ''42000.0,42001.0,42002.0,42003.0,42004.0,42005.0,42006.0,42007.0,42008.0,42009.0''"
proof -
  have "length (df_rows demo_frame) = 20"
    using demo_frame_tabular by (simp add: tabular_sample_def)
  then show ?thesis
    unfolding demo_bodies_normal
    by (simp add: demo_row_0 str_demo str_int_def str_nat.simps digit_char_def)
qed

lemma demo_body_drifted_0:
  "request_bodies (new_events (demo_state 7) (demo_state 8)) ! 0 =
     ''42000.0,42001.0,42002.0,42003.0,42004.0,42005.0,42006.0,42007.0,42008.0,42009.0''"
proof -
  have "length (df_rows (contents (arrays (demo_state 7)) (df_drifted (demo_state 7)))) = 20"
    using sample_frame_contents(2) [OF demo_frame_7(1)] by (simp add: tabular_sample_def)
  then show ?thesis
    unfolding demo_bodies_drifted
    by (simp add: demo_row_7_0 str_demo str_int_def str_nat.simps digit_char_def)
qed

lemma demo_first_row_resent:
  "request_bodies (new_events (demo_state 7) (demo_state 8)) ! 0 =
   request_bodies (new_events (demo_state 3) (demo_state 4)) ! 0"
  by (simp only: demo_body_normal_0 demo_body_drifted_0)

section \<open>The claims\<close>

text \<open>
  C9. Each of the two generated datasets is an ordered sequence of exactly 20 rows, every row
  holding exactly 10 numeric feature values (columns feature_1 to feature_10) plus a binary
  label in the target column, and no row is validated or rejected: when
  \<open>make_classification\<close> honours its documented shape, the cell that builds \<open>df_normal\<close>
  completes with a frame that shows a tabular sample whose rows are all the generated rows
  with their labels, in order, and so does the cell that builds \<open>df_drifted\<close> in any state
  whose \<open>X_normal\<close> and \<open>y_normal\<close> are the generated array and labels.
\<close>

theorem generated_datasets_tabular:
  assumes "mc_contract env normal_args"
  shows "is_Done (cell_make_normal env st) \<and>
     tabular_sample (contents (arrays (final (cell_make_normal env st)))
                              (df_normal (final (cell_make_normal env st)))) \<and>
     df_rows (contents (arrays (final (cell_make_normal env st)))
                       (df_normal (final (cell_make_normal env st)))) =
       labelled (fst (make_classification env normal_args)) (snd (make_classification env normal_args)) \<and>
     (X_normal st' = Some X \<and>
      array_at (arrays st') X = Some (fst (make_classification env normal_args)) \<and>
      y_normal st' = snd (make_classification env normal_args) \<longrightarrow>
        is_Done (cell_make_drifted env st') \<and>
        tabular_sample (contents (arrays (final (cell_make_drifted env st')))
                                 (df_drifted (final (cell_make_drifted env st')))) \<and>
        df_rows (contents (arrays (final (cell_make_drifted env st')))
                          (df_drifted (final (cell_make_drifted env st')))) =
          labelled (fst (make_classification env normal_args))
                   (snd (make_classification env normal_args)))"
proof -
  let ?X = "fst (make_classification env normal_args)"
  let ?y = "snd (make_classification env normal_args)"
  from assms have shape: "length ?X = 20" "list_all (\<lambda>r. length r = 10) ?X"
    "length ?y = 20" "list_all (\<lambda>l. 0 \<le> l \<and> l < 2) ?y"
    by (simp_all add: mc_contract_def normal_args_def)
  then have labels: "list_all (\<lambda>l. l = 0 \<or> l = 1) ?y"
    by (auto simp: list_all_iff)
  let ?s = "final (cell_make_normal env st)"
  have "sample_frame (arrays ?s) (df_normal ?s) (length (arrays st)) ?y"
    using shape labels by (simp add: cell_make_normal_result [OF assms] sample_frame_def)
  from sample_frame_contents [OF this]
  have normal: "is_Done (cell_make_normal env st) \<and> tabular_sample (contents (arrays ?s) (df_normal ?s)) \<and>
      df_rows (contents (arrays ?s) (df_normal ?s)) = labelled ?X ?y"
    by (simp add: cell_make_normal_result [OF assms])
  have drifted: "is_Done (cell_make_drifted env st') \<and>
      tabular_sample (contents (arrays (final (cell_make_drifted env st')))
                               (df_drifted (final (cell_make_drifted env st')))) \<and>
      df_rows (contents (arrays (final (cell_make_drifted env st')))
                        (df_drifted (final (cell_make_drifted env st')))) = labelled ?X ?y"
    if X: "X_normal st' = Some X" and at: "array_at (arrays st') X = Some ?X" and y: "y_normal st' = ?y"
  proof -
    let ?t = "final (cell_make_drifted env st')"
    from at have in_store: "X < length (arrays st')" and arr: "arrays st' ! X = ?X"
      by (simp_all add: array_at_def split: if_splits)
    have pre: "list_all (\<lambda>r. length r = 10) (arrays st' ! X)"
      "length (y_normal st') = length (arrays st' ! X)"
      using shape by (simp_all add: arr y)
    note run = cell_make_drifted_result [OF X in_store pre]
    have "sample_frame (arrays ?t) (df_drifted ?t) X ?y"
      using shape labels in_store by (simp add: run sample_frame_def arr y nth_append)
    from sample_frame_contents [OF this] show ?thesis
      using in_store by (simp add: run arr nth_append)
  qed
  from normal drifted show ?thesis
    by blast
qed

theorem generated_datasets_tabular_witness:
  "mc_contract demo_env normal_args \<and>
   X_normal (demo_state 4) = Some 0 \<and>
   array_at (arrays (demo_state 4)) 0 = Some (fst (make_classification demo_env normal_args)) \<and>
   y_normal (demo_state 4) = snd (make_classification demo_env normal_args) \<and>
   is_Done (cell_make_normal demo_env (demo_state 1)) \<and>
   tabular_sample (contents (arrays (final (cell_make_normal demo_env (demo_state 1))))
                            (df_normal (final (cell_make_normal demo_env (demo_state 1))))) \<and>
   is_Done (cell_make_drifted demo_env (demo_state 4)) \<and>
   tabular_sample (contents (arrays (final (cell_make_drifted demo_env (demo_state 4))))
                            (df_drifted (final (cell_make_drifted demo_env (demo_state 4)))))"
proof -
  have X: "X_normal (demo_state 4) = Some 0"
    and at: "array_at (arrays (demo_state 4)) 0 = Some (fst (make_classification demo_env normal_args))"
    and y: "y_normal (demo_state 4) = snd (make_classification demo_env normal_args)"
    using demo_after_4 by (simp_all add: demo_data_def demo_env_def array_at_def)
  from generated_datasets_tabular [OF demo_contract, of "demo_state 1" "demo_state 4" 0] X at y
    demo_contract
  show ?thesis by blast
qed

text \<open>
  C10. The defect-injection step selects exactly 10% of the rows (2 of the 20) in column
  feature_1 and sets each selected value to NaN, and exactly 10% of the rows in column
  feature_2 and multiplies each selected value by 10, for two (possibly overlapping) sampled
  row sets; every other cell of the frame is unchanged. The frame is one that the notebook
  builds (twenty rows, ten feature columns on an array of the store, a target column), and
  the sampler returns as many different rows of the frame as it is asked for. The number of
  rows is what the cell computes from \<^verbatim>\<open>frac=0.1\<close> and the length of the frame.
\<close>

theorem inject_changes_selected_cells_only:
  assumes fr: "sample_frame (arrays st) (df_drifted st) X y"
    and s0: "sample_contract env 0 20 2" and s1: "sample_contract env 1 20 2"
  shows "is_Done (cell_inject env st) \<and>
     length (df_rows (contents (arrays st) (df_drifted st))) = 20 \<and>
     card (set (df_sample env 0 1 10 (fr_index (df_drifted st)))) = 2 \<and>
     card (set (df_sample env 1 1 10 (fr_index (df_drifted st)))) = 2 \<and>
     df_columns (contents (arrays (final (cell_inject env st))) (df_drifted (final (cell_inject env st)))) =
       df_columns (contents (arrays st) (df_drifted st)) \<and>
     length (df_rows (contents (arrays (final (cell_inject env st)))
                               (df_drifted (final (cell_inject env st))))) = 20 \<and>
     (\<forall>i\<in>set (df_sample env 0 1 10 (fr_index (df_drifted st))).
        cell_at (contents (arrays (final (cell_inject env st))) (df_drifted (final (cell_inject env st))))
          i ''feature_1'' = Flt (nan env)) \<and>
     (\<forall>i\<in>set (df_sample env 1 1 10 (fr_index (df_drifted st))).
        \<exists>x. cell_at (contents (arrays st) (df_drifted st)) i ''feature_2'' = Flt x \<and>
            cell_at (contents (arrays (final (cell_inject env st))) (df_drifted (final (cell_inject env st))))
              i ''feature_2'' = Flt (fmul env x (float_of_int env 10))) \<and>
     (\<forall>i<20. \<forall>c\<in>set (df_columns (contents (arrays st) (df_drifted st))).
        \<not> (c = ''feature_1'' \<and> i \<in> set (df_sample env 0 1 10 (fr_index (df_drifted st)))) \<and>
        \<not> (c = ''feature_2'' \<and> i \<in> set (df_sample env 1 1 10 (fr_index (df_drifted st)))) \<longrightarrow>
        cell_at (contents (arrays (final (cell_inject env st))) (df_drifted (final (cell_inject env st)))) i c =
        cell_at (contents (arrays st) (df_drifted st)) i c)"
proof -
  let ?cols = "feature_names @ [''target'']"
  let ?s = "final (cell_inject env st)"
  let ?T = "contents (arrays st) (df_drifted st)"
  let ?T' = "contents (arrays ?s) (df_drifted ?s)"
  let ?A = "arrays st ! X"
  let ?S0 = "sample_rows env 0 20 2"
  let ?S1 = "sample_rows env 1 20 2"
  from cell_inject_cells [OF assms] obtain A' where
    run: "cell_inject env st = Done (st\<lparr>arrays := (arrays st)[X := A']\<rparr>)"
    and len': "length A' = 20" and rowlen': "\<And>i. i < 20 \<Longrightarrow> length (A' ! i) = 10"
    and cells: "\<And>i j. i < 20 \<Longrightarrow> j < 10 \<Longrightarrow> A' ! i ! j =
           (if i \<in> set ?S0 \<and> j = 0 then nan env
            else if i \<in> set ?S1 \<and> j = 1 then fmul env (?A ! i ! j) (float_of_int env 10)
            else ?A ! i ! j)"
    by blast
  from fr have n: "fr_index (df_drifted st) = 20" and X: "X < length (arrays st)"
    and len: "length ?A = 20" and rowlen: "\<And>i. i < 20 \<Longrightarrow> length (?A ! i) = 10"
    and ylen: "length y = 20"
    by (simp_all add: sample_frame_def list_all_length)
  have sel: "df_sample env 0 1 10 (fr_index (df_drifted st)) = ?S0"
    "df_sample env 1 1 10 (fr_index (df_drifted st)) = ?S1"
    by (simp_all add: n df_sample_def round_half_even_def)
  from s0 s1 have cards: "card (set ?S0) = 2" "card (set ?S1) = 2"
    and in0: "\<And>i. i \<in> set ?S0 \<Longrightarrow> i < 20" and in1: "\<And>i. i \<in> set ?S1 \<Longrightarrow> i < 20"
    by (simp_all add: sample_contract_def distinct_card list_all_iff)
  have s: "arrays ?s = (arrays st)[X := A']" "df_drifted ?s = df_drifted st"
    by (simp_all add: run)
  have at': "arrays ?s ! X = A'"
    using X by (simp add: s)
  have fr': "sample_frame (arrays ?s) (df_drifted ?s) X y"
    using cell_inject_frame [OF assms] by (simp add: s)
  have T: "?T = \<lparr>df_columns = ?cols, df_rows = labelled ?A y\<rparr>"
    by (rule sample_frame_contents(1) [OF fr])
  have T': "?T' = \<lparr>df_columns = ?cols, df_rows = labelled A' y\<rparr>"
    using sample_frame_contents(1) [OF fr'] by (simp add: at')
  have old: "df_rows ?T ! i ! j = (if j < 10 then Flt (?A ! i ! j) else Lbl (y ! i))"
    if "i < 20" "j < 11" for i j
    unfolding T using labelled_cell [of i ?A y j] that len ylen rowlen by simp
  have new: "df_rows ?T' ! i ! j = (if j < 10 then Flt (A' ! i ! j) else Lbl (y ! i))"
    if "i < 20" "j < 11" for i j
    unfolding T' using labelled_cell [of i A' y j] that len' ylen rowlen' by simp
  have f1: "column_index ?T ''feature_1'' = 0" "column_index ?T' ''feature_1'' = 0"
    and f2: "column_index ?T ''feature_2'' = 1" "column_index ?T' ''feature_2'' = 1"
    by (simp_all add: column_index_def T T' feature_names_eq)
  have a: "cell_at ?T' i ''feature_1'' = Flt (nan env)" if "i \<in> set ?S0" for i
    using new [of i 0] cells [of i 0] in0 [OF that] that by (simp add: cell_at_def f1)
  have b: "\<exists>x. cell_at ?T i ''feature_2'' = Flt x \<and>
      cell_at ?T' i ''feature_2'' = Flt (fmul env x (float_of_int env 10))" if "i \<in> set ?S1" for i
    using new [of i 1] old [of i 1] cells [of i 1] in1 [OF that] that by (simp add: cell_at_def f2)
  have c: "cell_at ?T' i c = cell_at ?T i c"
    if i: "i < 20" and c: "c \<in> set ?cols"
      and n1: "\<not> (c = ''feature_1'' \<and> i \<in> set ?S0)" and n2: "\<not> (c = ''feature_2'' \<and> i \<in> set ?S1)"
    for i c
  proof -
    let ?j = "length (takeWhile (\<lambda>x. x \<noteq> c) ?cols)"
    from column_index_found [OF c] have j: "?j < 11" and at: "?cols ! ?j = c"
      by (simp_all add: length_feature_names)
    have names: "(c = ''feature_1'') = (?j = 0)" "(c = ''feature_2'') = (?j = 1)"
      using column_feature_1 [OF j] column_feature_2 [OF j] at by simp_all
    have idx: "column_index ?T c = ?j" "column_index ?T' c = ?j"
      by (simp_all add: column_index_def T T')
    show ?thesis
    proof (cases "?j < 10")
      case True
      with cells [OF i True] n1 n2 names have "A' ! i ! ?j = ?A ! i ! ?j"
        by auto
      with new [OF i j] old [OF i j] True show ?thesis
        by (simp add: cell_at_def idx)
    next
      case False
      with new [OF i j] old [OF i j] show ?thesis
        by (simp add: cell_at_def idx)
    qed
  qed
  have rows: "length (df_rows ?T) = 20" "length (df_rows ?T') = 20"
    using len len' ylen by (simp_all add: T T' length_labelled)
  have cols: "df_columns ?T' = df_columns ?T" "df_columns ?T = ?cols"
    by (simp_all add: T T')
  from run have "is_Done (cell_inject env st)"
    by simp
  with rows cards cols a b c show ?thesis
    unfolding sel by simp
qed

theorem inject_changes_selected_cells_only_witness:
  "sample_frame (arrays (demo_state 6)) (df_drifted (demo_state 6)) 0
     (snd (demo_make_classification normal_args)) \<and>
   sample_contract demo_env 0 20 2 \<and> sample_contract demo_env 1 20 2 \<and>
   is_Done (cell_inject demo_env (demo_state 6)) \<and>
   df_sample demo_env 0 1 10 (fr_index (df_drifted (demo_state 6))) = [3, 17] \<and>
   df_sample demo_env 1 1 10 (fr_index (df_drifted (demo_state 6))) = [3, 8] \<and>
   card (set (df_sample demo_env 0 1 10 (fr_index (df_drifted (demo_state 6))))) = 2 \<and>
   card (set (df_sample demo_env 1 1 10 (fr_index (df_drifted (demo_state 6))))) = 2 \<and>
   cell_at (contents (arrays (demo_state 6)) (df_drifted (demo_state 6))) 3 ''feature_1'' =
     Flt (Fin 42030) \<and>
   cell_at (contents (arrays (final (cell_inject demo_env (demo_state 6))))
                     (df_drifted (final (cell_inject demo_env (demo_state 6))))) 3 ''feature_1'' =
     Flt NaN \<and>
   cell_at (contents (arrays (demo_state 6)) (df_drifted (demo_state 6))) 8 ''feature_2'' =
     Flt (Fin 42081) \<and>
   cell_at (contents (arrays (final (cell_inject demo_env (demo_state 6))))
                     (df_drifted (final (cell_inject demo_env (demo_state 6))))) 8 ''feature_2'' =
     Flt (Fin 420810) \<and>
   cell_at (contents (arrays (demo_state 6)) (df_drifted (demo_state 6))) 8 ''feature_1'' =
     Flt (Fin 42080) \<and>
   cell_at (contents (arrays (final (cell_inject demo_env (demo_state 6))))
                     (df_drifted (final (cell_inject demo_env (demo_state 6))))) 8 ''feature_1'' =
     Flt (Fin 42080) \<and>
   cell_at (contents (arrays (demo_state 6)) (df_drifted (demo_state 6))) 8 ''target'' = Lbl 0 \<and>
   cell_at (contents (arrays (final (cell_inject demo_env (demo_state 6))))
                     (df_drifted (final (cell_inject demo_env (demo_state 6))))) 8 ''target'' = Lbl 0"
proof -
  let ?T = "contents (arrays (demo_state 6)) (df_drifted (demo_state 6))"
  let ?T' = "contents (arrays (final (cell_inject demo_env (demo_state 6))))
                      (df_drifted (final (cell_inject demo_env (demo_state 6))))"
  have T: "?T = demo_frame"
    using demo_after_6 demo_contents [of "demo_state 6"] by simp
  have cols: "df_columns ?T = feature_names @ [''target'']"
    by (simp add: T demo_frame_def)
  have n: "fr_index (df_drifted (demo_state 6)) = 20"
    using demo_frame_6 by (simp add: sample_frame_def)
  have sel: "df_sample demo_env 0 1 10 (fr_index (df_drifted (demo_state 6))) = [3, 17]"
    "df_sample demo_env 1 1 10 (fr_index (df_drifted (demo_state 6))) = [3, 8]"
    by (simp_all add: n df_sample_def demo_env_def)
  have env: "nan demo_env = NaN" "fmul demo_env = dfloat_mul" "float_of_int demo_env = Fin"
    by (simp_all add: demo_env_def)
  have idx: "column_index demo_frame ''feature_1'' = 0" "column_index demo_frame ''feature_2'' = 1"
    "column_index demo_frame ''target'' = 10"
    by (simp_all add: column_index_def demo_frame_def feature_names_eq)
  have before: "cell_at ?T 3 ''feature_1'' = Flt (Fin 42030)"
    "cell_at ?T 8 ''feature_2'' = Flt (Fin 42081)"
    "cell_at ?T 8 ''feature_1'' = Flt (Fin 42080)"
    "cell_at ?T 8 ''target'' = Lbl 0"
    by (simp_all add: T cell_at_def idx demo_cell_3_1 demo_row_8)
  note inst = inject_changes_selected_cells_only [OF demo_frame_6 demo_samples]
  from inst have run: "is_Done (cell_inject demo_env (demo_state 6))"
    by blast
  from inst have cards: "card (set (df_sample demo_env 0 1 10 (fr_index (df_drifted (demo_state 6))))) = 2"
    "card (set (df_sample demo_env 1 1 10 (fr_index (df_drifted (demo_state 6))))) = 2"
    by blast+
  from inst have a: "cell_at ?T' i ''feature_1'' = Flt NaN" if "i \<in> set [3, 17]" for i
    using that unfolding sel env by blast
  from inst have b: "\<exists>x. cell_at ?T i ''feature_2'' = Flt x \<and>
      cell_at ?T' i ''feature_2'' = Flt (dfloat_mul x (Fin 10))" if "i \<in> set [3, 8]" for i
    using that unfolding sel env by blast
  from inst have c: "cell_at ?T' i c = cell_at ?T i c"
    if "i < 20" "c \<in> set (feature_names @ [''target''])"
      "\<not> (c = ''feature_1'' \<and> i \<in> set [3, 17])" "\<not> (c = ''feature_2'' \<and> i \<in> set [3, 8])"
    for i c
    using that unfolding sel cols by blast
  have "cell_at ?T' 3 ''feature_1'' = Flt NaN"
    using a [of 3] by simp
  moreover have "cell_at ?T' 8 ''feature_2'' = Flt (Fin 420810)"
    using b [of 8] before by auto
  moreover have "cell_at ?T' 8 ''feature_1'' = Flt (Fin 42080)"
    using c [of 8 "''feature_1''"] before by (simp add: feature_names_eq)
  moreover have "cell_at ?T' 8 ''target'' = Lbl 0"
    using c [of 8 "''target''"] before by (simp add: feature_names_eq)
  ultimately show ?thesis
    using demo_frame_6 demo_samples run sel cards before by simp
qed

text \<open>
  C3. The two CSV files the notebook writes have identical contents: once the cells up to the
  one that generates the anomalous data have run, \<open>df_drifted\<close> is the frame built on the
  array of \<open>X_normal\<close> with the labels \<open>y_normal\<close>, it equals \<open>df_normal\<close>, and each file holds
  the rendering of what its frame shows, as it was written; the freshly generated \<open>X_drifted\<close>
  and \<open>y_drifted\<close> do not enter.
\<close>

theorem csv_files_identical:
  assumes "run_cells env [cell_make_normal, cell_show_normal, cell_send_normal,
             cell_make_drifted] st = Done s"
  shows "files s ''synthetic_drifted_data.csv'' = files s ''synthetic_normal_data.csv'' \<and>
     files s ''synthetic_normal_data.csv'' = Some (to_csv env (contents (arrays s) (df_normal s))) \<and>
     files s ''synthetic_drifted_data.csv'' = Some (to_csv env (contents (arrays s) (df_drifted s))) \<and>
     df_drifted s = df_normal s \<and>
     y_normal s = snd (make_classification env normal_args) \<and>
     (\<exists>X. X_normal s = Some X \<and>
        array_at (arrays s) X = Some (fst (make_classification env normal_args)) \<and>
        (\<exists>d. DataFrame (arrays s) X feature_names = Inr d \<and>
             set_column d ''target'' (map Lbl (y_normal s)) = Inr (df_drifted s)))"
  using drifted_built_from_normal [OF assms] by auto

theorem csv_files_identical_witness:
  "run_cells demo_env [cell_make_normal, cell_show_normal, cell_send_normal, cell_make_drifted]
     (demo_state 1) = Done (demo_state 5) \<and>
   files (demo_state 5) ''synthetic_drifted_data.csv'' =
     files (demo_state 5) ''synthetic_normal_data.csv'' \<and>
   df_drifted (demo_state 5) = df_normal (demo_state 5)"
  using csv_files_identical [OF demo_run_to_drifted] demo_run_to_drifted by blast

text \<open>
  C1 says that the second dataset consists of rows drawn from a distribution different from
  that of the first. On the stand-in services, whose \<open>make_classification\<close> returns other
  values for the second call, the notebook generates the array \<open>X_drifted\<close>, different from the
  array \<open>X_normal\<close>, and then builds \<open>df_drifted\<close> on \<open>X_normal\<close>: after the cell, the drifted
  frame is the normal frame and shows the normal rows, the drifted file is the normal file, and
  the first request of the second loop has the body of the first request of the first loop.
\<close>

theorem drifted_frame_is_normal_frame:
  "X_drifted (demo_state 5) = Some 1 \<and>
   array_at (arrays (demo_state 5)) 1 = Some (fst (make_classification demo_env drifted_args)) \<and>
   X_normal (demo_state 5) = Some 0 \<and>
   array_at (arrays (demo_state 5)) 0 = Some (fst (make_classification demo_env normal_args)) \<and>
   array_at (arrays (demo_state 5)) 1 \<noteq> array_at (arrays (demo_state 5)) 0 \<and>
   df_drifted (demo_state 5) = df_normal (demo_state 5) \<and>
   df_rows (contents (arrays (demo_state 5)) (df_drifted (demo_state 5))) =
     labelled (fst (make_classification demo_env normal_args))
              (snd (make_classification demo_env normal_args)) \<and>
   files (demo_state 5) ''synthetic_drifted_data.csv'' =
     files (demo_state 5) ''synthetic_normal_data.csv'' \<and>
   request_bodies (new_events (demo_state 7) (demo_state 8)) ! 0 =
     request_bodies (new_events (demo_state 3) (demo_state 4)) ! 0"
proof -
  have mc: "make_classification demo_env = demo_make_classification"
    by (simp add: demo_env_def)
  have "contents (arrays (demo_state 5)) (df_drifted (demo_state 5)) = demo_frame"
    using demo_after_5 demo_contents [of "demo_state 5"] by simp
  then have "df_rows (contents (arrays (demo_state 5)) (df_drifted (demo_state 5))) =
      labelled (fst (demo_make_classification normal_args)) (snd (demo_make_classification normal_args))"
    by (simp add: demo_frame_def)
  then show ?thesis
    using drifted_built_from_normal [OF demo_run_to_drifted] demo_after_5 demo_X_differ
      demo_first_row_resent
    by (simp add: demo_data_def mc array_at_def)
qed




text \<open>
  C4. For every feature row sent to the endpoint, the request body is exactly the
  comma-separated join of the string renderings of that row's feature values, the target
  column removed, and the response body is consumed as a single floating-point score, parsed
  with \<open>float\<close> and printed. This holds for both cells that send a frame, on a frame that
  shows a tabular sample.
\<close>

theorem requests_are_csv_rows:
  "(tabular_sample (contents (arrays st) (df_normal st)) \<and> cell_send_normal env st = Done s \<longrightarrow>
      csv_exchange env (contents (arrays st) (df_normal st)) st s) \<and>
   (tabular_sample (contents (arrays st) (df_drifted st)) \<and> cell_send_drifted env st = Done s \<longrightarrow>
      csv_exchange env (contents (arrays st) (df_drifted st)) st s)"
  using send_frame_csv_exchange [of st "df_normal st" env s]
    send_frame_csv_exchange [of st "df_drifted st" env s]
    tabular_sample_shape [of "contents (arrays st) (df_normal st)"]
    tabular_sample_shape [of "contents (arrays st) (df_drifted st)"]
  by (simp add: cell_send_normal_def cell_send_drifted_def)

theorem requests_are_csv_rows_witness:
  "tabular_sample (contents (arrays (demo_state 3)) (df_normal (demo_state 3))) \<and>
   cell_send_normal demo_env (demo_state 3) = Done (demo_state 4) \<and>
   csv_exchange demo_env (contents (arrays (demo_state 3)) (df_normal (demo_state 3)))
     (demo_state 3) (demo_state 4) \<and>
   df_rows (contents (arrays (demo_state 3)) (df_normal (demo_state 3))) ! 0 =
     [Flt (Fin 42000), Flt (Fin 42001), Flt (Fin 42002), Flt (Fin 42003), Flt (Fin 42004),
      Flt (Fin 42005), Flt (Fin 42006), Flt (Fin 42007), Flt (Fin 42008), Flt (Fin 42009), Lbl 0] \<and>
   request_bodies (new_events (demo_state 3) (demo_state 4)) ! 0 =
     ''42000.0,42001.0,42002.0,42003.0,42004.0,42005.0,42006.0,42007.0,42008.0,42009.0'' \<and>
   tabular_sample (contents (arrays (demo_state 7)) (df_drifted (demo_state 7))) \<and>
   cell_send_drifted demo_env (demo_state 7) = Done (demo_state 8) \<and>
   csv_exchange demo_env (contents (arrays (demo_state 7)) (df_drifted (demo_state 7)))
     (demo_state 7) (demo_state 8) \<and>
   df_rows (contents (arrays (demo_state 7)) (df_drifted (demo_state 7))) ! 3 =
     [Flt NaN, Flt (Fin 420310), Flt (Fin 42032), Flt (Fin 42033), Flt (Fin 42034),
      Flt (Fin 42035), Flt (Fin 42036), Flt (Fin 42037), Flt (Fin 42038), Flt (Fin 42039), Lbl 1] \<and>
   request_bodies (new_events (demo_state 7) (demo_state 8)) ! 3 =
     ''nan,420310.0,42032.0,42033.0,42034.0,42035.0,42036.0,42037.0,42038.0,42039.0''"
proof -
  let ?N = "contents (arrays (demo_state 3)) (df_normal (demo_state 3))"
  let ?D = "contents (arrays (demo_state 7)) (df_drifted (demo_state 7))"
  have N: "?N = demo_frame"
    using demo_after_3 by (intro demo_contents) simp_all
  have n: "tabular_sample ?N"
    using demo_frame_tabular by (simp add: N)
  have d: "tabular_sample ?D"
    by (rule sample_frame_contents(2) [OF demo_frame_7(1)])
  from requests_are_csv_rows [of "demo_state 3" demo_env "demo_state 4"] n demo_send_normal
  have xn: "csv_exchange demo_env ?N (demo_state 3) (demo_state 4)"
    by blast
  from requests_are_csv_rows [of "demo_state 7" demo_env "demo_state 8"] d demo_send_drifted
  have xd: "csv_exchange demo_env ?D (demo_state 7) (demo_state 8)"
    by blast
  have rn: "df_rows ?N ! 0 =
     [Flt (Fin 42000), Flt (Fin 42001), Flt (Fin 42002), Flt (Fin 42003), Flt (Fin 42004),
      Flt (Fin 42005), Flt (Fin 42006), Flt (Fin 42007), Flt (Fin 42008), Flt (Fin 42009), Lbl 0]"
    by (simp only: N demo_row_0)
  have rd: "df_rows ?D ! 3 =
     [Flt NaN, Flt (Fin 420310), Flt (Fin 42032), Flt (Fin 42033), Flt (Fin 42034),
      Flt (Fin 42035), Flt (Fin 42036), Flt (Fin 42037), Flt (Fin 42038), Flt (Fin 42039), Lbl 1]"
    by (rule demo_row_7_3)
  from n d have len: "length (df_rows ?N) = 20" "length (df_rows ?D) = 20"
    by (simp_all add: tabular_sample_def)
  from xn have "request_bodies (new_events (demo_state 3) (demo_state 4)) ! 0 =
      comma_separated (map (\<lambda>c. str_float demo_env (to_float demo_env c)) (butlast (df_rows ?N ! 0)))"
    using len by (simp add: csv_exchange_def)
  then have bn: "request_bodies (new_events (demo_state 3) (demo_state 4)) ! 0 =
     ''42000.0,42001.0,42002.0,42003.0,42004.0,42005.0,42006.0,42007.0,42008.0,42009.0''"
    unfolding rn by (simp add: str_demo str_int_def str_nat.simps digit_char_def)
  from xd have "request_bodies (new_events (demo_state 7) (demo_state 8)) ! 3 =
      comma_separated (map (\<lambda>c. str_float demo_env (to_float demo_env c)) (butlast (df_rows ?D ! 3)))"
    using len by (simp add: csv_exchange_def)
  then have bd: "request_bodies (new_events (demo_state 7) (demo_state 8)) ! 3 =
     ''nan,420310.0,42032.0,42033.0,42034.0,42035.0,42036.0,42037.0,42038.0,42039.0''"
    unfolding rd by (simp add: str_demo str_int_def str_nat.simps digit_char_def)
  from n demo_send_normal xn rn bn d demo_send_drifted xd rd bd show ?thesis
    by blast
qed

text \<open>
  C5. For every row of each of the two prepared datasets, the notebook issues exactly one
  endpoint invocation, in the row order of the dataset, and prints the score before sending
  the next row; no row is retried, skipped or batched. When a cell that sends a frame
  completes, what it added to the trace is one exchange per row, in order; whatever the
  outcome, the request bodies sent are an initial part of the payloads of the rows, each
  once, in order (none when the target column is missing).
\<close>

theorem one_invocation_per_row:
  "(cell_send_normal env st = Done s \<longrightarrow>
      row_by_row env (contents (arrays st) (df_normal st)) st s) \<and>
   (cell_send_drifted env st = Done s \<longrightarrow>
      row_by_row env (contents (arrays st) (df_drifted st)) st s) \<and>
   (case drop_column (arrays st) df ''target'' of
      Inl e \<Rightarrow> new_events st (final (send_frame env df st)) = []
    | Inr d \<Rightarrow> prefix (request_bodies (new_events st (final (send_frame env df st))))
               (map (payload_of env) (df_values env (arrays st) d)))"
  using send_frame_row_by_row [of env "df_normal st" st s]
    send_frame_row_by_row [of env "df_drifted st" st s]
    send_frame_requests [where df = df and st = st and env = env]
  by (simp add: cell_send_normal_def cell_send_drifted_def)

theorem one_invocation_per_row_witness:
  "cell_send_normal demo_env (demo_state 3) = Done (demo_state 4) \<and>
   row_by_row demo_env (contents (arrays (demo_state 3)) (df_normal (demo_state 3)))
     (demo_state 3) (demo_state 4) \<and>
   cell_send_drifted demo_env (demo_state 7) = Done (demo_state 8) \<and>
   row_by_row demo_env (contents (arrays (demo_state 7)) (df_drifted (demo_state 7)))
     (demo_state 7) (demo_state 8)"
  using one_invocation_per_row [of demo_env "demo_state 3" "demo_state 4"]
    one_invocation_per_row [of demo_env "demo_state 7" "demo_state 8"]
    demo_send_normal demo_send_drifted
  by blast




text \<open>
  C7. The notebook never writes to or modifies the two baseline documents: when the cells from
  the baseline locations to the schedule creation complete, the two documents were each read
  once from object storage, their contents went to the two displays and nowhere else, no file
  was written, the external world was changed by the schedule-creation call alone, and that
  call received the two storage locations, not the contents. Whatever the outcome of the
  notebook, the only files it has written are its two CSV files.
\<close>

theorem baseline_documents_read_only:
  "(run_cells env [cell_baseline_uris, cell_read_baseline, cell_show_statistics,
      cell_show_constraints, cell_create_schedule] st = Done s \<longrightarrow>
    (\<exists>c1 c2 d1 d2.
       s3_object_get env (world st) (bucket st) statistics_key = Inr c1 \<and>
       s3_object_get env (world st) (bucket st) constraints_key = Inr c2 \<and>
       json_loads env c1 = Inr d1 \<and> json_loads env c2 = Inr d2 \<and>
       statistics_content s = c1 \<and> constraints_content s = c2 \<and>
       events s = events st @
         [GetObject (bucket st) statistics_key, GetObject (bucket st) constraints_key,
          DisplayJSON d1, DisplayJSON d2,
          CreateMonitoringSchedule (the_monitor st)
            [(''endpoint_input'', Str (endpoint_name st)),
             (''output_s3_uri'', Str (s3_uri (bucket st) ''monitoring_output'')),
             (''statistics'', Str (s3_uri (bucket st) statistics_key)),
             (''constraints'', Str (s3_uri (bucket st) constraints_key)),
             (''schedule_cron_expression'', Str (cron_daily env)),
             (''enable_cloudwatch_metrics'', Flag True)]] \<and>
       files s = files st \<and>
       world s = fst (create_monitoring_schedule env (world st) (the_monitor st)
            [(''endpoint_input'', Str (endpoint_name st)),
             (''output_s3_uri'', Str (s3_uri (bucket st) ''monitoring_output'')),
             (''statistics'', Str (s3_uri (bucket st) statistics_key)),
             (''constraints'', Str (s3_uri (bucket st) constraints_key)),
             (''schedule_cron_expression'', Str (cron_daily env)),
             (''enable_cloudwatch_metrics'', Flag True)]))) \<and>
   dom (files (final (notebook env w))) \<subseteq>
     {''synthetic_normal_data.csv'', ''synthetic_drifted_data.csv''}"
  using baseline_cells_trace [of env st s] notebook_files [of env w] by blast

theorem baseline_documents_read_only_witness:
  "run_cells demo_env [cell_baseline_uris, cell_read_baseline, cell_show_statistics,
     cell_show_constraints, cell_create_schedule] (demo_state 9) = Done (demo_state 14) \<and>
   s3_object_get demo_env (world (demo_state 9)) (bucket (demo_state 9)) statistics_key =
     Inr (statistics_content (demo_state 14)) \<and>
   s3_object_get demo_env (world (demo_state 9)) (bucket (demo_state 9)) constraints_key =
     Inr (constraints_content (demo_state 14)) \<and>
   files (demo_state 14) = files (demo_state 9)"
  using baseline_documents_read_only [of demo_env "demo_state 9" "demo_state 14"]
    demo_run_baseline
  by auto

text \<open>
  C8 says that the schedule-creation call supplies exactly the four inputs that the
  specification names. On the stand-in services the one call of the completed notebook has
  a further keyword, \<open>enable_cloudwatch_metrics\<close>.
\<close>

theorem schedule_call_has_further_input:
  "map (\<lambda>(m, kw). map fst kw) (schedule_calls (events (final (notebook demo_env 0)))) \<noteq>
     [named_inputs]"
  using notebook_schedule_call [OF demo_notebook]
  by (simp add: demo_notebook named_inputs_def)

text \<open>
  C8, amended: a notebook that completes has issued exactly one schedule-creation call, on a
  monitor with the execution role, one ml.m5.large instance, a 20 GB volume and a maximal
  runtime of 3600 seconds, and the call supplies the endpoint name lab-sagemaker-endpoint, the
  output location s3://{bucket}/monitoring_output, the two baseline locations
  s3://{bucket}/baseline_output/statistics.json and constraints.json, the daily recurrence
  expression, and the flag \<open>enable_cloudwatch_metrics = True\<close>; {bucket} is the rendering of
  the first listed bucket whose name starts with lab-sagemaker-.
\<close>

theorem schedule_call_inputs:
  assumes "notebook env w = Done s"
  shows "schedule_calls (events s) =
     [(\<lparr>m_role = role s, instance_count = 1, instance_type = ''ml.m5.large'',
        volume_size_in_gb = 20, max_runtime_in_seconds = 3600\<rparr>,
       [(''endpoint_input'', Str ''lab-sagemaker-endpoint''),
        (''output_s3_uri'', Str (''s3://'' @ format_opt (bucket s) @ ''/monitoring_output'')),
        (''statistics'',
           Str (''s3://'' @ format_opt (bucket s) @ ''/baseline_output/statistics.json'')),
        (''constraints'',
           Str (''s3://'' @ format_opt (bucket s) @ ''/baseline_output/constraints.json'')),
        (''schedule_cron_expression'', Str (cron_daily env)),
        (''enable_cloudwatch_metrics'', Flag True)])] \<and>
     (\<exists>names. list_buckets env w = Inr names \<and> bucket s = find (prefix ''lab-sagemaker-'') names)"
  using notebook_schedule_call [OF assms]
  by (simp add: s3_uri_def statistics_key_def constraints_key_def)

theorem schedule_call_inputs_witness:
  "notebook demo_env 0 = Done (demo_state 14) \<and>
   schedule_calls (events (demo_state 14)) =
     [(\<lparr>m_role = ''lab-role'', instance_count = 1, instance_type = ''ml.m5.large'',
        volume_size_in_gb = 20, max_runtime_in_seconds = 3600\<rparr>,
       [(''endpoint_input'', Str ''lab-sagemaker-endpoint''),
        (''output_s3_uri'', Str ''s3://lab-sagemaker-0001/monitoring_output''),
        (''statistics'', Str ''s3://lab-sagemaker-0001/baseline_output/statistics.json''),
        (''constraints'', Str ''s3://lab-sagemaker-0001/baseline_output/constraints.json''),
        (''schedule_cron_expression'', Str ''cron(0 0 ? * * *)''),
        (''enable_cloudwatch_metrics'', Flag True)])]"
proof -
  have "cron_daily demo_env = ''cron(0 0 ? * * *)''"
    by (simp add: demo_env_def)
  with schedule_call_inputs [OF demo_notebook] demo_after_14 demo_notebook show ?thesis
    by (simp add: demo_session_def demo_bucket_def)
qed

end
